theory Spec2Isabelle
  imports Main "HOL-Library.Char_ord" "HOL-Library.Sublist"
begin

section \<open>Scanner: token kinds and tokens (lexer.ts)\<close>

text \<open>
  The enum \<open>TokenType\<close> of lexer.ts, member by member and in the order of the source.
  Every constructor carries the prefix \<open>T_\<close>, since several member names (True, False,
  If, Let, String) are constants of HOL. The enum has no member for a \<open>match\<close> keyword.
\<close>

datatype TokenType =
    T_Func | T_Identifier | T_LBrace | T_RBrace | T_LParen | T_RParen
  | T_LBracket | T_RBracket | T_String | T_Number | T_Comma | T_Colon
  | T_Assign | T_Plus | T_Minus | T_Asterisk | T_ForwardSlash | T_Range
  | T_Equal | T_NotEqual | T_LessThan | T_LessThanEqual | T_GreaterThan
  | T_GreaterThanEqual | T_Type | T_Return | T_Let | T_True | T_False
  | T_And | T_Or | T_If | T_ElseIf | T_Else | T_For | T_It | T_In
  | T_Break | T_Skip | T_Defer | T_EOF

text \<open>Interface \<open>Token\<close>: the kind and the optional literal payload.\<close>

record Token =
  ttype :: TokenType
  tvalue :: "string option"

definition tok :: "TokenType \<Rightarrow> Token" where
  "tok k = \<lparr>ttype = k, tvalue = None\<rparr>"

definition tokv :: "TokenType \<Rightarrow> string \<Rightarrow> Token" where
  "tokv k v = \<lparr>ttype = k, tvalue = Some v\<rparr>"

fun tokenToString :: "TokenType \<Rightarrow> string" where
  "tokenToString T_Func = ''func''"
| "tokenToString T_Identifier = ''identifier''"
| "tokenToString T_LBrace = ''lbrace''"
| "tokenToString T_RBrace = ''rbrace''"
| "tokenToString T_LParen = ''lparen''"
| "tokenToString T_RParen = ''rparen''"
| "tokenToString T_LBracket = ''lbracket''"
| "tokenToString T_RBracket = ''rbracket''"
| "tokenToString T_String = ''string''"
| "tokenToString T_Number = ''number''"
| "tokenToString T_Comma = ''comma''"
| "tokenToString T_Colon = ''colon''"
| "tokenToString T_Assign = ''assign''"
| "tokenToString T_Plus = ''plus''"
| "tokenToString T_Minus = ''minus''"
| "tokenToString T_Asterisk = ''asterisk''"
| "tokenToString T_ForwardSlash = ''forward_slash''"
| "tokenToString T_Range = ''range''"
| "tokenToString T_Equal = ''equal''"
| "tokenToString T_NotEqual = ''not_equal''"
| "tokenToString T_LessThan = ''less_than''"
| "tokenToString T_LessThanEqual = ''less_than_or_equal''"
| "tokenToString T_GreaterThan = ''greater_than''"
| "tokenToString T_GreaterThanEqual = ''greater_than_or_equal''"
| "tokenToString T_Type = ''type''"
| "tokenToString T_Return = ''return''"
| "tokenToString T_Let = ''let''"
| "tokenToString T_True = ''true''"
| "tokenToString T_False = ''false''"
| "tokenToString T_And = ''and''"
| "tokenToString T_Or = ''or''"
| "tokenToString T_EOF = ''eof''"
| "tokenToString T_If = ''if''"
| "tokenToString T_ElseIf = ''else if''"
| "tokenToString T_Else = ''else''"
| "tokenToString T_For = ''for''"
| "tokenToString T_It = ''it''"
| "tokenToString T_In = ''in''"
| "tokenToString T_Break = ''break;''"
| "tokenToString T_Skip = ''skip''"
| "tokenToString T_Defer = ''defer''"

section \<open>Token cursor (class TokenList of lexer.ts)\<close>

text \<open>
  The class holds the token array and a cursor that the constructor sets to \<open>-1\<close>.
  Reading the array outside \<open>0 .. length - 1\<close> yields \<open>undefined\<close> in the source;
  here that is \<open>None\<close>.
\<close>

record TokenList =
  tokens :: "Token list"
  cursor :: int

definition TokenList_new :: "Token list \<Rightarrow> TokenList" where
  "TokenList_new ts = \<lparr>tokens = ts, cursor = - 1\<rparr>"

definition tokenAt :: "Token list \<Rightarrow> int \<Rightarrow> Token option" where
  "tokenAt ts i = (if 0 \<le> i \<and> i < int (length ts) then Some (ts ! nat i) else None)"

text \<open>
  \<open>pop\<close>: when the cursor is at or beyond the length it is first set to \<open>length - 1\<close>;
  then it is incremented and the token at the new position is returned.
\<close>

definition pop :: "TokenList \<Rightarrow> Token option \<times> TokenList" where
  "pop tks =
     (let c = (if cursor tks \<ge> int (length (tokens tks))
               then int (length (tokens tks)) - 1 else cursor tks);
          c' = c + 1
      in (tokenAt (tokens tks) c', tks\<lparr>cursor := c'\<rparr>))"

text \<open>
  \<open>peek\<close>: when the cursor is at or beyond the length it is first set to \<open>length - 2\<close>
  (the assignment stays: peek changes the cursor in that case); the token \<open>pos\<close>
  places after the cursor is returned. The default \<open>pos = 1\<close> is passed explicitly.
\<close>

definition peek :: "TokenList \<Rightarrow> nat \<Rightarrow> Token option \<times> TokenList" where
  "peek tks pos =
     (let c = (if cursor tks \<ge> int (length (tokens tks))
               then int (length (tokens tks)) - 2 else cursor tks)
      in (tokenAt (tokens tks) (c + int pos), tks\<lparr>cursor := c\<rparr>))"

section \<open>Scanner: the function lex\<close>

text \<open>
  The source splits the text into an array of one-character strings and reads
  \<open>chars[i]\<close>, which is \<open>undefined\<close> at and beyond the length; every comparison
  with \<open>undefined\<close> is false. Characters are compared by their code.
\<close>

definition charAt :: "char list \<Rightarrow> nat \<Rightarrow> char option" where
  "charAt chars i = (if i < length chars then Some (chars ! i) else None)"

fun isWhitespace :: "char option \<Rightarrow> bool" where
  "isWhitespace None = False"
| "isWhitespace (Some ch) =
     (ch = CHR '' '' \<or> ch = CHR 0x0A \<or> ch = CHR 0x0D \<or> ch = CHR 0x09)"

fun isCharacter :: "char option \<Rightarrow> bool" where
  "isCharacter None = False"
| "isCharacter (Some ch) =
     (ch \<ge> CHR ''a'' \<and> ch \<le> CHR ''z'' \<or> ch \<ge> CHR ''A'' \<and> ch \<le> CHR ''Z''
      \<or> ch \<ge> CHR ''0'' \<and> ch \<le> CHR ''9'' \<or> ch = CHR ''_'')"

fun isDigit :: "char option \<Rightarrow> bool" where
  "isDigit None = False"
| "isDigit (Some ch) = (ch \<ge> CHR ''0'' \<and> ch \<le> CHR ''9'')"

function skipWhitespace :: "char list \<Rightarrow> nat \<Rightarrow> nat" where
  "skipWhitespace chars i =
     (if i < length chars \<and> isWhitespace (charAt chars i)
      then skipWhitespace chars (i + 1) else i)"
  by pat_completeness auto
termination
  by (relation "measure (\<lambda>(chars, i). length chars - i)") auto

declare skipWhitespace.simps [simp del]

text \<open>
  The four inner loops of \<open>lex\<close> that advance \<open>i\<close> while \<open>i < chars.length\<close> and a
  test on \<open>chars[i]\<close> holds (digits, identifier characters, string body, comment).
\<close>

function scanWhile :: "(char option \<Rightarrow> bool) \<Rightarrow> char list \<Rightarrow> nat \<Rightarrow> nat" where
  "scanWhile p chars i =
     (if i < length chars \<and> p (charAt chars i)
      then scanWhile p chars (i + 1) else i)"
  by pat_completeness auto
termination
  by (relation "measure (\<lambda>(p, chars, i). length chars - i)") auto

declare scanWhile.simps [simp del]

definition slice :: "char list \<Rightarrow> nat \<Rightarrow> nat \<Rightarrow> string" where
  "slice chars start e = take (e - start) (drop start chars)"

text \<open>The keyword table of the identifier branch, in the order of the source.\<close>

definition keywordToken :: "string \<Rightarrow> Token" where
  "keywordToken v =
     (if v = ''func'' then tok T_Func
      else if v = ''string'' then tokv T_Type v
      else if v = ''i32'' then tokv T_Type v
      else if v = ''bool'' then tokv T_Type v
      else if v = ''void'' then tokv T_Type v
      else if v = ''return'' then tok T_Return
      else if v = ''let'' then tok T_Let
      else if v = ''true'' then tok T_True
      else if v = ''false'' then tok T_False
      else if v = ''and'' then tok T_And
      else if v = ''or'' then tok T_Or
      else if v = ''if'' then tok T_If
      else if v = ''elif'' then tok T_ElseIf
      else if v = ''else'' then tok T_Else
      else if v = ''for'' then tok T_For
      else if v = ''it'' then tok T_It
      else if v = ''in'' then tok T_In
      else if v = ''break'' then tok T_Break
      else if v = ''skip'' then tok T_Skip
      else if v = ''defer'' then tok T_Defer
      else tokv T_Identifier v)"

text \<open>
  One pass through the body of the \<open>for\<close> loop of \<open>lex\<close>, from the index \<open>i0\<close> the
  loop header holds: the index reached at the end of the body (before the header's
  \<open>++i\<close>) and the token array after the body.
\<close>

definition lexStep :: "char list \<Rightarrow> nat \<Rightarrow> Token list \<Rightarrow> nat \<times> Token list" where
  "lexStep chars i0 result =
     (let i = skipWhitespace chars i0; ch = charAt chars i in
      if ch = Some CHR ''('' then (i, result @ [tok T_LParen])
      else if ch = Some CHR '')'' then (i, result @ [tok T_RParen])
      else if ch = Some CHR ''{'' then (i, result @ [tok T_LBrace])
      else if ch = Some CHR ''}'' then (i, result @ [tok T_RBrace])
      else if ch = Some CHR ''['' then (i, result @ [tok T_LBracket])
      else if ch = Some CHR '']'' then (i, result @ [tok T_RBracket])
      else if isDigit ch then
        (let e = scanWhile isDigit chars i
         in (e - 1, result @ [tokv T_Number (slice chars i e)]))
      else if isCharacter ch then
        (let e = scanWhile isCharacter chars i
         in (e - 1, result @ [keywordToken (slice chars i e)]))
      else if ch = Some (CHR 0x27) then
        (let start = i + 1;
             e = scanWhile (\<lambda>c. c \<noteq> Some (CHR 0x27)) chars start
         in (e, result @ [tokv T_String (slice chars start e)]))
      else if ch = Some CHR '','' then (i, result @ [tok T_Comma])
      else if ch = Some CHR '':'' then (i, result @ [tok T_Colon])
      else if ch = Some CHR ''='' then
        (if charAt chars (i + 1) = Some CHR ''=''
         then (i + 1, result @ [tok T_Equal]) else (i, result @ [tok T_Assign]))
      else if ch = Some CHR ''!'' then
        (if charAt chars (i + 1) = Some CHR ''=''
         then (i + 1, result @ [tok T_NotEqual]) else (i, result))
      else if ch = Some CHR ''<'' then
        (if charAt chars (i + 1) = Some CHR ''=''
         then (i + 1, result @ [tok T_LessThanEqual]) else (i, result @ [tok T_LessThan]))
      else if ch = Some CHR ''>'' then
        (if charAt chars (i + 1) = Some CHR ''=''
         then (i + 1, result @ [tok T_GreaterThanEqual])
         else (i, result @ [tok T_GreaterThan]))
      else if ch = Some CHR ''+'' then (i, result @ [tok T_Plus])
      else if ch = Some CHR ''-'' then (i, result @ [tok T_Minus])
      else if ch = Some CHR ''*'' then (i, result @ [tok T_Asterisk])
      else if ch = Some CHR ''/'' then (i, result @ [tok T_ForwardSlash])
      else if ch = Some CHR ''.'' then
        (if charAt chars (i + 1) = Some CHR ''.''
         then (i + 1, result @ [tok T_Range]) else (i, result))
      else if ch = Some CHR ''#'' then
        (scanWhile (\<lambda>c. c \<noteq> Some (CHR 0x0A)) chars i, result)
      else (i, result))"

lemma skipWhitespace_ge: "i \<le> skipWhitespace chars i"
proof (induction chars i rule: skipWhitespace.induct)
  case (1 chars i)
  show ?case
  proof (cases "i < length chars \<and> isWhitespace (charAt chars i)")
    case True
    with 1 have "i + 1 \<le> skipWhitespace chars (i + 1)" by simp
    moreover from True have "skipWhitespace chars i = skipWhitespace chars (i + 1)"
      by (subst skipWhitespace.simps) simp
    ultimately show ?thesis by simp
  next
    case False
    then show ?thesis by (subst skipWhitespace.simps) auto
  qed
qed

lemma scanWhile_ge: "i \<le> scanWhile p chars i"
proof (induction p chars i rule: scanWhile.induct)
  case (1 p chars i)
  show ?case
  proof (cases "i < length chars \<and> p (charAt chars i)")
    case True
    with 1 have "i + 1 \<le> scanWhile p chars (i + 1)" by simp
    moreover from True have "scanWhile p chars i = scanWhile p chars (i + 1)"
      by (subst scanWhile.simps) simp
    ultimately show ?thesis by simp
  next
    case False
    then show ?thesis by (subst scanWhile.simps) auto
  qed
qed

lemma scanWhile_gt:
  assumes "i < length chars" and "p (charAt chars i)"
  shows "i < scanWhile p chars i"
proof -
  from assms have "scanWhile p chars i = scanWhile p chars (i + 1)"
    by (subst scanWhile.simps) simp
  moreover have "i + 1 \<le> scanWhile p chars (i + 1)" by (rule scanWhile_ge)
  ultimately show ?thesis by simp
qed

lemma isDigit_in_range: "isDigit (charAt chars i) \<Longrightarrow> i < length chars"
  by (cases "i < length chars") (simp_all add: charAt_def)

lemma isCharacter_in_range: "isCharacter (charAt chars i) \<Longrightarrow> i < length chars"
  by (cases "i < length chars") (simp_all add: charAt_def)

lemma lexStep_ge: "i0 \<le> fst (lexStep chars i0 result)"
proof -
  let ?i = "skipWhitespace chars i0"
  have a: "i0 \<le> ?i" by (rule skipWhitespace_ge)
  have d: "isDigit (charAt chars ?i) \<Longrightarrow> i0 \<le> scanWhile isDigit chars ?i - 1"
    using scanWhile_gt [of ?i chars isDigit] isDigit_in_range [of chars ?i] a by simp
  have c: "isCharacter (charAt chars ?i) \<Longrightarrow> i0 \<le> scanWhile isCharacter chars ?i - 1"
    using scanWhile_gt [of ?i chars isCharacter] isCharacter_in_range [of chars ?i] a by simp
  have s: "i0 \<le> scanWhile (\<lambda>c. c \<noteq> Some (CHR 0x27)) chars (?i + 1)"
    using scanWhile_ge [of "?i + 1" "\<lambda>c. c \<noteq> Some (CHR 0x27)" chars] a by simp
  have h: "i0 \<le> scanWhile (\<lambda>c. c \<noteq> Some (CHR 0x0A)) chars ?i"
    using scanWhile_ge [of ?i "\<lambda>c. c \<noteq> Some (CHR 0x0A)" chars] a by simp
  show ?thesis
    unfolding lexStep_def Let_def using a d c s h by (simp add: le_SucI)
qed

text \<open>The \<open>for\<close> loop of \<open>lex\<close>: body, then \<open>++i\<close>, while \<open>i < chars.length\<close>.\<close>

function lexLoop :: "char list \<Rightarrow> nat \<Rightarrow> Token list \<Rightarrow> Token list" where
  "lexLoop chars i result =
     (if i < length chars
      then lexLoop chars (fst (lexStep chars i result) + 1) (snd (lexStep chars i result))
      else result)"
  by pat_completeness auto
termination
proof (relation "measure (\<lambda>(chars, i, result). length chars - i)")
  show "wf (measure (\<lambda>(chars, i, result). length chars - i))" by simp
next
  fix chars :: "char list" and i :: nat and result :: "Token list"
  assume "i < length chars"
  moreover have "i \<le> fst (lexStep chars i result)" by (rule lexStep_ge)
  ultimately have "length chars - (fst (lexStep chars i result) + 1) < length chars - i"
    by arith
  then show "((chars, fst (lexStep chars i result) + 1, snd (lexStep chars i result)),
      (chars, i, result)) \<in> measure (\<lambda>(chars, i, result). length chars - i)"
    by (simp only: in_measure prod.case)
qed

declare lexLoop.simps [simp del]

definition lexTokens :: "string \<Rightarrow> Token list" where
  "lexTokens src = lexLoop src 0 [] @ [tok T_EOF]"

definition lex :: "string \<Rightarrow> TokenList" where
  "lex src = TokenList_new (lexTokens src)"

section \<open>Abstract syntax tree (parser module)\<close>

text \<open>
  The enums \<open>DataType\<close> and \<open>Operator\<close> (constructors prefixed, since the two enums
  and \<open>TokenType\<close> share member names), and the tree. An \<open>Expression\<close> of the source
  is a pair of a type tag and untyped data; here each tag is a constructor that carries
  the data the parser stores under that tag: a \<open>FunctionCall\<close> record, the text of a
  literal or variable, the element type and items of an array (\<open>Arr\<close>), or the
  operator and the two operands of a binary operation. The tag \<open>operator\<close> is what
  \<open>parseOperator\<close> returns; it is never stored in a tree. \<open>Statement\<close> is modelled in
  the same way, with \<open>IfStatement\<close>, \<open>MatchStatement\<close>, \<open>MatchCase\<close> and
  \<open>ForStatement\<close> as the interfaces of the source; optional fields are options.
\<close>

datatype DataType = DT_Void | DT_String | DT_I32 | DT_Bool

datatype Operator =
    Op_Add | Op_Subtract | Op_Multiply | Op_Divide | Op_Equal | Op_NotEqual
  | Op_LessThan | Op_LessThanOrEqual | Op_GreaterThan | Op_GreaterThanOrEqual
  | Op_And | Op_Or | Op_Range

datatype Expression =
    FunctionCallExpr FunctionCall
  | StringLit string
  | I32Lit string
  | BoolLit string
  | Array DataType "Expression list"
  | Variable string
  | OperatorExpr Operator
  | BinaryOperation Operator Expression Expression
and FunctionCall = FunctionCall (call_name: string) (arguments: "Expression list")

record VariableDecl =
  v_name :: string
  v_type :: DataType
  v_isArray :: bool
  v_value :: Expression

datatype Statement =
    ExpressionStmt Expression
  | ReturnStmt Expression
  | VariableDeclStmt VariableDecl
  | IfStmt IfStatement
  | MatchStmt MatchStatement
  | ForStmt ForStatement
  | BreakStmt
  | SkipStmt
  | DeferStmt Expression
and Block = Block (statements: "Statement list") (variables: "VariableDecl list")
and IfStatement =
  IfStatement (if_condition: Expression) (if_block: Block)
    (elseif: "(Expression \<times> Block) list") (else_block: "Block option")
and MatchStatement =
  MatchStatement (pattern: Expression) (cases: "MatchCase list") (match_else: "Block option")
and MatchCase = MatchCase (case_pattern: Expression) (case_block: Block)
and ForStatement =
  ForStatement (item: "string option") (expression: "Expression option") (for_block: Block)

record Parameter =
  p_name :: string
  p_type :: DataType

record Func =
  f_name :: string
  f_params :: "Parameter list"
  f_block :: Block
  f_returns :: DataType

record ParsedFile =
  funcs :: "Func list"

section \<open>Code generator (codegen.ts)\<close>

text \<open>
  Library functions of the host language that the generator uses: \<open>Array.join\<close>,
  \<open>Array.findIndex\<close> (\<open>-1\<close> when no element satisfies the test), the decimal text
  of a non-negative number in a template literal, and \<open>' '.repeat(indentLevel * 4)\<close>.
\<close>

fun join :: "string \<Rightarrow> string list \<Rightarrow> string" where
  "join sep [] = []"
| "join sep [x] = x"
| "join sep (x # y # ys) = x @ sep @ join sep (y # ys)"

fun findIndex :: "('a \<Rightarrow> bool) \<Rightarrow> 'a list \<Rightarrow> int" where
  "findIndex p [] = - 1"
| "findIndex p (x # xs) =
     (if p x then 0 else (let r = findIndex p xs in if r = - 1 then - 1 else r + 1))"

definition digitChar :: "nat \<Rightarrow> char" where
  "digitChar d = char_of (48 + d)"

function numberToString :: "nat \<Rightarrow> string" where
  "numberToString n =
     (if n < 10 then [digitChar n] else numberToString (n div 10) @ [digitChar (n mod 10)])"
  by pat_completeness auto
termination
  by (relation "measure (\<lambda>n. n)") auto

declare numberToString.simps [simp del]

definition indentOf :: "nat \<Rightarrow> string" where
  "indentOf indentLevel = replicate (indentLevel * 4) CHR '' ''"

fun translateOperator :: "Operator \<Rightarrow> string" where
  "translateOperator Op_Add = ''+''"
| "translateOperator Op_Subtract = ''-''"
| "translateOperator Op_Multiply = ''*''"
| "translateOperator Op_Divide = ''/''"
| "translateOperator Op_Equal = ''===''"
| "translateOperator Op_NotEqual = ''!==''"
| "translateOperator Op_LessThan = ''<''"
| "translateOperator Op_LessThanOrEqual = ''<=''"
| "translateOperator Op_GreaterThan = ''>''"
| "translateOperator Op_GreaterThanOrEqual = ''>=''"
| "translateOperator Op_And = ''&&''"
| "translateOperator Op_Or = ''||''"
| "translateOperator Op_Range = ''''"

text \<open>
  The generator never throws: its functions are total and return text.
  \<open>translateExpression\<close> returns the empty text for the tag \<open>operator\<close>, and
  \<open>translateOperator\<close> returns it for the range operator (the \<open>default\<close> case).
\<close>

fun translateExpression :: "Expression \<Rightarrow> ParsedFile \<Rightarrow> string"
  and translateFunctionCall :: "FunctionCall \<Rightarrow> ParsedFile \<Rightarrow> string" where
  "translateExpression (FunctionCallExpr call) context = translateFunctionCall call context"
| "translateExpression (StringLit s) context = [CHR 0x27] @ s @ [CHR 0x27]"
| "translateExpression (I32Lit s) context = s"
| "translateExpression (BoolLit s) context = s"
| "translateExpression (Variable s) context = s"
| "translateExpression (OperatorExpr opr) context = ''''"
| "translateExpression (BinaryOperation opr left right) context =
     (let l = translateExpression left context;
          r = translateExpression right context;
          op = translateOperator opr
      in l @ '' '' @ op @ '' '' @ r)"
| "translateExpression (Array t items) context =
     ''['' @ join '', '' (map (\<lambda>e. translateExpression e context) items) @ '']''"
| "translateFunctionCall (FunctionCall nm argus) context =
     (let args = join '', '' (map (\<lambda>arg. translateExpression arg context) argus) in
      if nm = ''print'' then ''console.log('' @ args @ '');''
      else if findIndex (\<lambda>func. f_name func = nm) (funcs context) \<noteq> - 1
        then nm @ ''('' @ args @ '')''
      else '''')"

definition translateRangeExpression ::
  "Expression \<Rightarrow> Expression \<Rightarrow> ParsedFile \<Rightarrow> string \<times> string" where
  "translateRangeExpression left right context =
     (translateExpression left context, translateExpression right context)"

definition translateVariableDecl :: "VariableDecl \<Rightarrow> ParsedFile \<Rightarrow> string" where
  "translateVariableDecl decl context =
     ''const '' @ v_name decl @ '' = '' @ translateExpression (v_value decl) context @ '';''"

definition translateFunctionParams :: "Parameter list \<Rightarrow> string" where
  "translateFunctionParams params = join '', '' (map p_name params)"

text \<open>
  \<open>translateBlock\<close>: the loop over the statements is a \<open>fold\<close> that carries the two
  arrays \<open>result\<close> and \<open>defers\<close>; after it, one call line per entry of \<open>defers\<close>
  is pushed. In \<open>translateForStatement\<close> the test
  \<open>st.expression.data.operator === Operator.Range\<close> holds only for a binary operation
  whose operator is the range operator (no other data has an \<open>operator\<close> field), and
  \<open>st.item || 'it'\<close> takes \<open>it\<close> for a missing or empty name.
\<close>

fun translateBlock :: "Block \<Rightarrow> ParsedFile \<Rightarrow> nat \<Rightarrow> string list"
  and translateIfStatement :: "IfStatement \<Rightarrow> ParsedFile \<Rightarrow> nat \<Rightarrow> string"
  and translateMatchStatement :: "MatchStatement \<Rightarrow> ParsedFile \<Rightarrow> nat \<Rightarrow> string"
  and translateMatchCase :: "MatchCase \<Rightarrow> ParsedFile \<Rightarrow> nat \<Rightarrow> string list"
  and translateForStatement :: "ForStatement \<Rightarrow> ParsedFile \<Rightarrow> nat \<Rightarrow> string list"
where
  "translateBlock (Block stmts vars) context indentLevel =
     (let indent = indentOf indentLevel;
          (result, defers) =
            fold (\<lambda>statement (result, defers).
              case statement of
                ExpressionStmt e \<Rightarrow>
                  (result @ [indent @ translateExpression e context], defers)
              | ReturnStmt e \<Rightarrow>
                  (result @ [indent @ ''return '' @ translateExpression e context @ '';''],
                   defers)
              | VariableDeclStmt d \<Rightarrow>
                  (result @ [indent @ translateVariableDecl d context], defers)
              | IfStmt st \<Rightarrow>
                  (result @ [translateIfStatement st context indentLevel], defers)
              | MatchStmt st \<Rightarrow>
                  (result @ [translateMatchStatement st context indentLevel], defers)
              | ForStmt st \<Rightarrow>
                  (result @ translateForStatement st context indentLevel, defers)
              | BreakStmt \<Rightarrow> (result @ [indent @ ''break;''], defers)
              | SkipStmt \<Rightarrow> (result @ [indent @ ''continue''], defers)
              | DeferStmt e \<Rightarrow>
                  (let deferName = ''defer_'' @ numberToString (length defers) in
                   (result @ [indent @ ''const '' @ deferName @ '' = () => { ''
                                @ translateExpression e context @ ''; };''],
                    defers @ [deferName])))
              stmts ([], [])
      in result @ map (\<lambda>defer. indent @ defer @ ''();'') defers)"
| "translateIfStatement (IfStatement cond blk elifs els) context indentLevel =
     (let indent = indentOf indentLevel;
          ifcondition = translateExpression cond context;
          ifblock = translateBlock blk context (indentLevel + 1);
          result = [indent @ ''if ('' @ ifcondition @ '') {''] @ ifblock;
          result = result @ concat (map (\<lambda>(c, b).
                     [indent @ ''} else if ('' @ translateExpression c context @ '') {'']
                     @ translateBlock b context (indentLevel + 1)) elifs);
          result = (case els of
                      None \<Rightarrow> result
                    | Some b \<Rightarrow> result @ [indent @ ''} else {'']
                                 @ translateBlock b context (indentLevel + 1));
          result = result @ [indent @ ''}'']
      in join [CHR 0x0A] result)"
| "translateMatchStatement (MatchStatement pat cs els) context indentLevel =
     (let indent = indentOf indentLevel;
          nextIndent = indentOf (indentLevel + 1);
          nextnextIndent = indentOf (indentLevel + 2);
          result = [indent @ ''switch ('' @ translateExpression pat context @ '') {''];
          result = result @ concat (map (\<lambda>c. translateMatchCase c context (indentLevel + 1)) cs);
          result = (case els of
                      None \<Rightarrow> result
                    | Some b \<Rightarrow> result @ [nextIndent @ ''default: {'']
                                 @ translateBlock b context (indentLevel + 2)
                                 @ [nextnextIndent @ ''break;'']
                                 @ [nextIndent @ ''}'']);
          result = result @ [indent @ ''}'']
      in join [CHR 0x0A] result)"
| "translateMatchCase (MatchCase pat blk) context indentLevel =
     (let indent = indentOf indentLevel;
          nextIndent = indentOf (indentLevel + 1)
      in [indent @ ''case '' @ translateExpression pat context @ '': {'']
         @ translateBlock blk context (indentLevel + 1)
         @ [nextIndent @ ''break;'']
         @ [indent @ ''}''])"
| "translateForStatement (ForStatement itm expr blk) context indentLevel =
     (let indent = indentOf indentLevel in
      case expr of
        Some e \<Rightarrow>
          (let itemName = (case itm of None \<Rightarrow> ''it''
                           | Some n \<Rightarrow> if n = '''' then ''it'' else n) in
           case e of
             BinaryOperation opr left right \<Rightarrow>
               (if opr = Op_Range then
                  (let (start, endv) = translateRangeExpression left right context in
                   [indent @ ''for (let '' @ itemName @ '' = '' @ start @ ''; '' @ itemName
                      @ '' < '' @ endv @ ''; '' @ itemName @ ''++) {'']
                   @ translateBlock blk context (indentLevel + 1)
                   @ [indent @ ''}''])
                else [])
           | Variable v \<Rightarrow>
               [indent @ ''for (const '' @ itemName @ '' of '' @ translateExpression e context
                  @ '') {'']
               @ translateBlock blk context (indentLevel + 1)
               @ [indent @ ''}'']
           | _ \<Rightarrow> [])
      | None \<Rightarrow>
          [CHR 0x09 # ''while (true) {'']
          @ translateBlock blk context (indentLevel + 1)
          @ [CHR 0x09 # ''}''])"

definition translateFunction :: "Func \<Rightarrow> ParsedFile \<Rightarrow> string list" where
  "translateFunction func context =
     [''function '' @ f_name func @ ''('' @ translateFunctionParams (f_params func) @ '') {'']
     @ translateBlock (f_block func) context 1
     @ [''}'']"

text \<open>
  \<open>translate\<close>: \<open>translateLines\<close> is the array \<open>result\<close> at the end of the function,
  which \<open>translate\<close> joins with newlines.
\<close>

definition translateLines :: "ParsedFile \<Rightarrow> string list" where
  "translateLines parsedFile =
     (let result = concat (map (\<lambda>func. translateFunction func parsedFile @ ['''']) (funcs parsedFile))
      in if findIndex (\<lambda>func. f_name func = ''main'') (funcs parsedFile) \<noteq> - 1
         then result @ [''main();''] else result)"

definition translate :: "ParsedFile \<Rightarrow> string" where
  "translate parsedFile = join [CHR 0x0A] (translateLines parsedFile)"

section \<open>Parser (parser module)\<close>

text \<open>
  A parsing function either returns a value together with the cursor it leaves, or
  throws. Two kinds of exception occur: \<open>new Error(message)\<close>, thrown by the parser
  itself, and the \<open>TypeError\<close> of the host language when \<open>.type\<close> is read from an
  \<open>undefined\<close> token (one that \<open>pop\<close> or \<open>peek\<close> read beyond the array).

  The parsing functions are mutually recursive and loop over a cursor that can move
  backwards (see \<open>peek\<close>), so they are defined with fuel: every loop and every
  recursive descent takes a natural number that decreases by one per iteration or
  nesting level, and \<open>None\<close> is the answer when it runs out. \<open>Some (Inl e)\<close> is
  a thrown exception, \<open>Some (Inr x)\<close> a normal return.
\<close>

datatype error = Error string | TypeError

type_synonym 'a result = "(error + 'a) option"

definition ok :: "'a \<Rightarrow> 'a result" where
  "ok x = Some (Inr x)"

definition throw :: "string \<Rightarrow> 'a result" where
  "throw msg = Some (Inl (Error msg))"

definition bindResult :: "'a result \<Rightarrow> ('a \<Rightarrow> 'b result) \<Rightarrow> 'b result" where
  "bindResult m f = (case m of None \<Rightarrow> None | Some (Inl e) \<Rightarrow> Some (Inl e) | Some (Inr x) \<Rightarrow> f x)"

text \<open>
  \<open>extends r r'\<close>: the answer \<open>r'\<close> is the answer \<open>r\<close>, unless \<open>r\<close> is the
  answer of a run that was out of fuel.
\<close>

definition extends :: "'a result \<Rightarrow> 'a result \<Rightarrow> bool" where
  "extends r r' = (r = None \<or> r = r')"

text \<open>Reading \<open>token.type\<close>: a \<open>TypeError\<close> when the token is \<open>undefined\<close>.\<close>

definition defined :: "Token option \<Rightarrow> Token result" where
  "defined token = (case token of None \<Rightarrow> Some (Inl TypeError) | Some t \<Rightarrow> ok t)"

text \<open>
  \<open>token.value as string\<close>. The scanner gives every identifier, number, string and type
  token a value; for a hand-built token without one the source would carry
  \<open>undefined\<close> along, which is rendered here as the empty string.
\<close>

definition valueString :: "Token \<Rightarrow> string" where
  "valueString token = (case tvalue token of Some v \<Rightarrow> v | None \<Rightarrow> [])"

text \<open>
  The messages of the form \<open>Expected X, got 'kind'\<close>, where \<open>kind\<close> is
  \<open>tokenToString\<close> of the offending token's type.
\<close>

definition quoted :: "string \<Rightarrow> string" where
  "quoted s = [CHR 0x27] @ s @ [CHR 0x27]"

definition expected :: "string \<Rightarrow> TokenType \<Rightarrow> 'a result" where
  "expected what ty = throw (''Expected '' @ what @ '', got '' @ quoted (tokenToString ty))"

text \<open>
  \<open>parseStatement\<close> and \<open>parseMatchStatement\<close> compare a token's type with
  \<open>TokenType.Match\<close>. The enum of lexer.ts declares no member of that name, so the
  property read yields \<open>undefined\<close>, which is the type of no token.
\<close>

definition TokenType_Match :: "TokenType option" where
  "TokenType_Match = None"

text \<open>The table \<open>OPERATOR_PRECEDENCE\<close>, entry by entry.\<close>

fun OPERATOR_PRECEDENCE :: "Operator \<Rightarrow> nat" where
  "OPERATOR_PRECEDENCE Op_Add = 100"
| "OPERATOR_PRECEDENCE Op_Subtract = 100"
| "OPERATOR_PRECEDENCE Op_Multiply = 120"
| "OPERATOR_PRECEDENCE Op_Divide = 120"
| "OPERATOR_PRECEDENCE Op_Range = 70"
| "OPERATOR_PRECEDENCE Op_Equal = 50"
| "OPERATOR_PRECEDENCE Op_NotEqual = 50"
| "OPERATOR_PRECEDENCE Op_LessThan = 50"
| "OPERATOR_PRECEDENCE Op_LessThanOrEqual = 50"
| "OPERATOR_PRECEDENCE Op_GreaterThan = 50"
| "OPERATOR_PRECEDENCE Op_GreaterThanOrEqual = 50"
| "OPERATOR_PRECEDENCE Op_And = 25"
| "OPERATOR_PRECEDENCE Op_Or = 25"

definition parseType :: "TokenList \<Rightarrow> (DataType \<times> TokenList) result" where
  "parseType tks0 =
     (let (token, tks) = pop tks0 in
      bindResult (defined token) (\<lambda>token.
      if ttype token \<noteq> T_Colon then expected (quoted '':'') (ttype token)
      else
        (let (token, tks) = pop tks in
         bindResult (defined token) (\<lambda>token.
         if ttype token \<noteq> T_Type then expected ''data type'' (ttype token)
         else if valueString token = ''string'' then ok (DT_String, tks)
         else if valueString token = ''i32'' then ok (DT_I32, tks)
         else if valueString token = ''void'' then ok (DT_Void, tks)
         else ok (DT_Void, tks)))))"

definition parseFunctionParameter :: "TokenList \<Rightarrow> (Parameter \<times> TokenList) result" where
  "parseFunctionParameter tks0 =
     (let (token, tks) = pop tks0 in
      bindResult (defined token) (\<lambda>token.
      if ttype token = T_Identifier then
        bindResult (parseType tks) (\<lambda>(ty, tks).
        ok (\<lparr>p_name = valueString token, p_type = ty\<rparr>, tks))
      else expected ''parameter name'' (ttype token)))"

text \<open>
  \<open>parseOperator\<close>: the switch from token kinds to operators (\<open>None\<close> is the
  \<open>null\<close> data of a token that is no operator); the token is consumed only when it is
  an operator.
\<close>

fun operatorOfToken :: "TokenType \<Rightarrow> Operator option" where
  "operatorOfToken T_Plus = Some Op_Add"
| "operatorOfToken T_Minus = Some Op_Subtract"
| "operatorOfToken T_Asterisk = Some Op_Multiply"
| "operatorOfToken T_ForwardSlash = Some Op_Divide"
| "operatorOfToken T_LessThan = Some Op_LessThan"
| "operatorOfToken T_GreaterThan = Some Op_GreaterThan"
| "operatorOfToken T_Equal = Some Op_Equal"
| "operatorOfToken T_NotEqual = Some Op_NotEqual"
| "operatorOfToken T_LessThanEqual = Some Op_LessThanOrEqual"
| "operatorOfToken T_GreaterThanEqual = Some Op_GreaterThanOrEqual"
| "operatorOfToken T_And = Some Op_And"
| "operatorOfToken T_Or = Some Op_Or"
| "operatorOfToken T_Range = Some Op_Range"
| "operatorOfToken _ = None"

definition parseOperator :: "TokenList \<Rightarrow> (Operator option \<times> TokenList) result" where
  "parseOperator tks0 =
     (let (token, tks) = peek tks0 1 in
      bindResult (defined token) (\<lambda>token.
      let data = operatorOfToken (ttype token) in
      if data \<noteq> None then ok (data, snd (pop tks)) else ok (data, tks)))"

text \<open>
  The two stacks of \<open>parseExpression\<close> are lists whose head is the top of the stack.
  \<open>reduce\<close> is the body shared by its two reducing loops: pop an operator, pop the
  right and then the left operand, push the binary operation. The operand stack always
  holds one element more than the operator stack, so the second equation of \<open>reduce\<close>
  is never used, and \<open>operandsStack[0]\<close>, the bottom of the stack, is the \<open>last\<close>
  element of a non-empty list.
\<close>

fun reduce :: "Operator \<Rightarrow> Expression list \<Rightarrow> Expression list" where
  "reduce opr (right # left # rest) = BinaryOperation opr left right # rest"
| "reduce opr operands = operands"

fun reduceWhile :: "nat \<Rightarrow> Operator list \<Rightarrow> Expression list \<Rightarrow> Operator list \<times> Expression list" where
  "reduceWhile currentPrecedence [] operands = ([], operands)"
| "reduceWhile currentPrecedence (opr # operators) operands =
     (if OPERATOR_PRECEDENCE opr \<ge> currentPrecedence
      then reduceWhile currentPrecedence operators (reduce opr operands)
      else (opr # operators, operands))"

fun drain :: "Operator list \<Rightarrow> Expression list \<Rightarrow> Expression list" where
  "drain [] operands = operands"
| "drain (opr # operators) operands = drain operators (reduce opr operands)"

text \<open>
  \<open>parseExpression\<close> calls \<open>parseOperand\<close>, which calls \<open>parseFunctionCall\<close> and
  \<open>parseArray\<close>, which call \<open>parseExpression\<close> again. The functions below take the
  parser \<open>pe\<close> to use for that nested call as a parameter; \<open>parseExpression\<close> then ties
  the knot by recursion on the fuel. Each \<open>...Loop\<close> function is the \<open>while\<close> loop of
  the function it is named after, entered with the token its condition inspects.
\<close>

type_synonym 'a parser = "TokenList \<Rightarrow> ('a \<times> TokenList) result"

fun parseArrayLoop ::
  "Expression parser \<Rightarrow> nat \<Rightarrow> Token option \<Rightarrow> Expression list \<Rightarrow> TokenList
    \<Rightarrow> (Expression list \<times> TokenList) result" where
  "parseArrayLoop pe 0 token items tks0 = None"
| "parseArrayLoop pe (Suc n) token items tks0 =
     bindResult (defined token) (\<lambda>token.
     if ttype token \<noteq> T_EOF \<and> ttype token \<noteq> T_RBracket then
       bindResult (pe tks0) (\<lambda>(e, tks).
       let (token, tks) = peek tks 1 in
       bindResult (defined token) (\<lambda>token.
       if ttype token \<noteq> T_Comma \<and> ttype token \<noteq> T_RBracket
       then expected (quoted '','') (ttype token)
       else
         (let (token, tks) = pop tks in
          parseArrayLoop pe n token (items @ [e]) tks)))
     else ok (items, tks0))"

definition parseArray ::
  "Expression parser \<Rightarrow> nat \<Rightarrow> (DataType \<times> Expression list) parser" where
  "parseArray pe n tks0 =
     (let (token, tks) = pop tks0 in
      bindResult (defined token) (\<lambda>token.
      if ttype token \<noteq> T_LBracket then expected (quoted ''['') (ttype token)
      else
        (let (token, tks) = peek tks 1 in
         bindResult (parseArrayLoop pe n token [] tks) (\<lambda>(items, tks).
         ok ((DT_I32, items), tks)))))"

fun parseFunctionCallLoop ::
  "Expression parser \<Rightarrow> nat \<Rightarrow> Token option \<Rightarrow> Expression list \<Rightarrow> TokenList
    \<Rightarrow> (Token \<times> Expression list \<times> TokenList) result" where
  "parseFunctionCallLoop pe 0 token argus tks0 = None"
| "parseFunctionCallLoop pe (Suc n) token argus tks0 =
     bindResult (defined token) (\<lambda>token.
     if ttype token \<noteq> T_EOF \<and> ttype token \<noteq> T_RParen then
       bindResult (pe tks0) (\<lambda>(e, tks).
       let (token, tks) = pop tks in
       parseFunctionCallLoop pe n token (argus @ [e]) tks)
     else ok (token, argus, tks0))"

definition parseFunctionCall :: "Expression parser \<Rightarrow> nat \<Rightarrow> FunctionCall parser" where
  "parseFunctionCall pe n tks0 =
     (let (token, tks) = pop tks0 in
      bindResult (defined token) (\<lambda>token.
      if ttype token \<noteq> T_Identifier then expected ''function name'' (ttype token)
      else
        (let nm = valueString token; (token, tks) = pop tks in
         bindResult (defined token) (\<lambda>token.
         if ttype token \<noteq> T_LParen
         then throw (''Expected '' @ quoted ''('' @ '', got '' @ tokenToString (ttype token))
         else
           (let (token, tks) = peek tks 1 in
            bindResult (defined token) (\<lambda>tokenD.
            let (token, tks) = (if ttype tokenD = T_RParen then pop tks else (token, tks)) in
            bindResult (parseFunctionCallLoop pe n token [] tks) (\<lambda>(token, argus, tks).
            if ttype token \<noteq> T_RParen then expected (quoted '')'') (ttype token)
            else ok (FunctionCall nm argus, tks))))))))"

definition parseOperand :: "Expression parser \<Rightarrow> nat \<Rightarrow> Expression parser" where
  "parseOperand pe n tks0 =
     (let (token, tks) = peek tks0 1 in
      bindResult (defined token) (\<lambda>token.
      if ttype token = T_String then ok (StringLit (valueString token), snd (pop tks))
      else if ttype token = T_Number then ok (I32Lit (valueString token), snd (pop tks))
      else if ttype token = T_True then ok (BoolLit ''true'', snd (pop tks))
      else if ttype token = T_False then ok (BoolLit ''false'', snd (pop tks))
      else if ttype token = T_Identifier then
        (let (token2, tks) = peek tks 2 in
         bindResult (defined token2) (\<lambda>token2.
         if ttype token2 = T_LParen then
           bindResult (parseFunctionCall pe n tks) (\<lambda>(call, tks). ok (FunctionCallExpr call, tks))
         else ok (Variable (valueString token), snd (pop tks))))
      else if ttype token = T_It then ok (Variable ''it'', snd (pop tks))
      else if ttype token = T_LBracket then
        bindResult (parseArray pe n tks) (\<lambda>((ty, items), tks). ok (Array ty items, tks))
      else expected ''expression'' (ttype token)))"

fun parseExpressionLoop ::
  "Expression parser \<Rightarrow> nat \<Rightarrow> Expression list \<Rightarrow> Operator list \<Rightarrow> TokenList
    \<Rightarrow> (Expression list \<times> Operator list \<times> TokenList) result" where
  "parseExpressionLoop pe 0 operandsStack operatorStack tks0 = None"
| "parseExpressionLoop pe (Suc n) operandsStack operatorStack tks0 =
     bindResult (parseOperator tks0) (\<lambda>(operator, tks).
     case operator of
       None \<Rightarrow> ok (operandsStack, operatorStack, tks)
     | Some opr \<Rightarrow>
         (let currentPrecedence = OPERATOR_PRECEDENCE opr;
              (operatorStack, operandsStack) =
                 reduceWhile currentPrecedence operatorStack operandsStack
          in bindResult (parseOperand pe n tks) (\<lambda>(nextOperand, tks).
             parseExpressionLoop pe n (nextOperand # operandsStack) (opr # operatorStack) tks)))"

definition parseExpressionBody :: "Expression parser \<Rightarrow> nat \<Rightarrow> Expression parser" where
  "parseExpressionBody pe n tks0 =
     bindResult (parseOperand pe n tks0) (\<lambda>(operand, tks).
     let (token, tks) = peek tks 1 in
     bindResult (defined token) (\<lambda>token.
     bindResult (if ttype token \<noteq> T_EOF then parseExpressionLoop pe n [operand] [] tks
                 else ok ([operand], [], tks)) (\<lambda>(operandsStack, operatorStack, tks).
     ok (last (drain operatorStack operandsStack), tks))))"

primrec parseExpression :: "nat \<Rightarrow> Expression parser" where
  "parseExpression 0 tks = None"
| "parseExpression (Suc n) tks = parseExpressionBody (parseExpression n) n tks"

definition parseVariableDecl :: "nat \<Rightarrow> VariableDecl parser" where
  "parseVariableDecl n tks0 =
     (let (token, tks) = pop tks0 in
      bindResult (defined token) (\<lambda>token.
      if ttype token \<noteq> T_Let then expected (quoted ''let'') (ttype token)
      else
        (let (token, tks) = pop tks in
         bindResult (defined token) (\<lambda>token.
         if ttype token \<noteq> T_Identifier then expected ''variable name'' (ttype token)
         else
           (let nm = valueString token in
            bindResult (parseType tks) (\<lambda>(ty, tks).
            let (token, tks) = peek tks 1 in
            bindResult (defined token) (\<lambda>token.
            bindResult
              (if ttype token = T_LBracket then
                 (let (token, tks) = pop tks; (token, tks) = pop tks in
                  bindResult (defined token) (\<lambda>token.
                  if ttype token = T_RBracket then ok (True, tks)
                  else throw (''Expected '' @ quoted ''[]'' @ '', got ''
                                @ tokenToString (ttype token))))
               else ok (False, tks)) (\<lambda>(isArr, tks).
            let (token, tks) = pop tks in
            bindResult (defined token) (\<lambda>token.
            if ttype token \<noteq> T_Assign then expected (quoted ''='') (ttype token)
            else
              bindResult (parseExpression n tks) (\<lambda>(e, tks).
              ok (\<lparr>v_name = nm, v_type = ty, v_isArray = isArr, v_value = e\<rparr>, tks)))))))))))"

text \<open>
  The statement parsers call \<open>parseBlock\<close> for nested blocks; they take the parser
  \<open>pb\<close> to use for it as a parameter, and \<open>parseBlock\<close> ties the knot.
\<close>

fun parseElseIfLoop ::
  "Block parser \<Rightarrow> nat \<Rightarrow> Token option \<Rightarrow> (Expression \<times> Block) list \<Rightarrow> TokenList
    \<Rightarrow> ((Expression \<times> Block) list \<times> TokenList) result" where
  "parseElseIfLoop pb 0 token elifs tks0 = None"
| "parseElseIfLoop pb (Suc n) token elifs tks0 =
     bindResult (defined token) (\<lambda>token.
     if ttype token = T_ElseIf then
       bindResult (parseExpression n (snd (pop tks0))) (\<lambda>(cond, tks).
       bindResult (pb tks) (\<lambda>(blk, tks).
       let (token, tks) = peek tks 1 in
       parseElseIfLoop pb n token (elifs @ [(cond, blk)]) tks))
     else ok (elifs, tks0))"

definition parseIfStatement :: "Block parser \<Rightarrow> nat \<Rightarrow> IfStatement parser" where
  "parseIfStatement pb n tks0 =
     (let (token, tks) = pop tks0 in
      bindResult (defined token) (\<lambda>token.
      if ttype token \<noteq> T_If then expected (quoted ''if'') (ttype token)
      else
        bindResult (parseExpression n tks) (\<lambda>(cond, tks).
        bindResult (pb tks) (\<lambda>(blk, tks).
        let (token, tks) = peek tks 1 in
        bindResult (parseElseIfLoop pb n token [] tks) (\<lambda>(elifs, tks).
        let (token, tks) = peek tks 1 in
        bindResult (defined token) (\<lambda>token.
        if ttype token = T_Else then
          bindResult (pb (snd (pop tks))) (\<lambda>(eblk, tks).
          ok (IfStatement cond blk elifs (Some eblk), tks))
        else ok (IfStatement cond blk elifs None, tks)))))))"

definition parseMatchCase :: "Block parser \<Rightarrow> nat \<Rightarrow> MatchCase parser" where
  "parseMatchCase pb n tks0 =
     bindResult (parseExpression n tks0) (\<lambda>(pat, tks).
     bindResult (pb tks) (\<lambda>(blk, tks).
     ok (MatchCase pat blk, tks)))"

fun parseMatchLoop ::
  "Block parser \<Rightarrow> nat \<Rightarrow> Token option \<Rightarrow> MatchCase list \<Rightarrow> TokenList
    \<Rightarrow> (MatchCase list \<times> TokenList) result" where
  "parseMatchLoop pb 0 token cs tks0 = None"
| "parseMatchLoop pb (Suc n) token cs tks0 =
     bindResult (defined token) (\<lambda>token.
     if ttype token \<noteq> T_EOF \<and> ttype token \<noteq> T_RBrace \<and> ttype token \<noteq> T_Else then
       bindResult (parseMatchCase pb n tks0) (\<lambda>(c, tks).
       let (token, tks) = peek tks 1 in
       parseMatchLoop pb n token (cs @ [c]) tks)
     else ok (cs, tks0))"

definition parseMatchStatement :: "Block parser \<Rightarrow> nat \<Rightarrow> MatchStatement parser" where
  "parseMatchStatement pb n tks0 =
     (let (token, tks) = pop tks0 in
      bindResult (defined token) (\<lambda>token.
      if Some (ttype token) \<noteq> TokenType_Match then expected (quoted ''match'') (ttype token)
      else
        bindResult (parseExpression n tks) (\<lambda>(pat, tks).
        let (token, tks) = pop tks in
        bindResult (defined token) (\<lambda>tokenD.
        if ttype tokenD \<noteq> T_LBrace then expected (quoted ''{'') (ttype tokenD)
        else
          bindResult (parseMatchLoop pb n token [] tks) (\<lambda>(cs, tks).
          let (token, tks) = pop tks in
          bindResult (defined token) (\<lambda>token.
          bindResult (if ttype token = T_Else
                      then bindResult (pb tks) (\<lambda>(eblk, tks). ok (Some eblk, tks))
                      else ok (None, tks)) (\<lambda>(els, tks).
          let (token, tks) = pop tks in
          bindResult (defined token) (\<lambda>token.
          if ttype token \<noteq> T_RBrace then expected (quoted ''}'') (ttype token)
          else ok (MatchStatement pat cs els, tks)))))))))"

definition parseForStatement :: "Block parser \<Rightarrow> nat \<Rightarrow> ForStatement parser" where
  "parseForStatement pb n tks0 =
     (let (token, tks) = pop tks0 in
      bindResult (defined token) (\<lambda>token.
      if ttype token \<noteq> T_For then expected (quoted ''for'') (ttype token)
      else
        (let (token, tks) = peek tks 1 in
         bindResult (defined token) (\<lambda>token.
         bindResult
           (if ttype token \<noteq> T_LBrace then
              bindResult
                (if ttype token = T_Identifier then
                   (let identifier = valueString token; (token2, tks) = peek tks 2 in
                    bindResult (defined token2) (\<lambda>token2.
                    if ttype token2 = T_In then ok (Some identifier, snd (pop tks))
                    else ok (None, tks)))
                 else ok (None, tks)) (\<lambda>(itm, tks).
              bindResult (parseExpression n tks) (\<lambda>(e, tks).
              ok (itm, Some e, tks)))
            else ok (None, None, tks)) (\<lambda>(itm, expr, tks).
         bindResult (pb tks) (\<lambda>(blk, tks).
         ok (ForStatement itm expr blk, tks)))))))"

text \<open>
  \<open>parseStatement\<close>: the loop dispatches on the inspected token; for a token that
  starts no statement it pops the next token and dispatches again, and it throws
  \<open>Incomplete statement\<close> when it reaches the end-of-stream token.
\<close>

fun parseStatementLoop ::
  "Block parser \<Rightarrow> nat \<Rightarrow> Token option \<Rightarrow> Statement parser" where
  "parseStatementLoop pb 0 token tks0 = None"
| "parseStatementLoop pb (Suc n) token tks0 =
     bindResult (defined token) (\<lambda>token.
     if ttype token \<noteq> T_EOF then
       (if ttype token = T_Identifier then
          bindResult (parseExpression n tks0) (\<lambda>(e, tks). ok (ExpressionStmt e, tks))
        else if ttype token = T_Return then
          bindResult (parseExpression n (snd (pop tks0))) (\<lambda>(e, tks). ok (ReturnStmt e, tks))
        else if ttype token = T_Let then
          bindResult (parseVariableDecl n tks0) (\<lambda>(d, tks). ok (VariableDeclStmt d, tks))
        else if ttype token = T_If then
          bindResult (parseIfStatement pb n tks0) (\<lambda>(st, tks). ok (IfStmt st, tks))
        else if Some (ttype token) = TokenType_Match then
          bindResult (parseMatchStatement pb n tks0) (\<lambda>(st, tks). ok (MatchStmt st, tks))
        else if ttype token = T_For then
          bindResult (parseForStatement pb n tks0) (\<lambda>(st, tks). ok (ForStmt st, tks))
        else if ttype token = T_Break then ok (BreakStmt, snd (pop tks0))
        else if ttype token = T_Skip then ok (SkipStmt, snd (pop tks0))
        else if ttype token = T_Defer then
          bindResult (parseExpression n (snd (pop tks0))) (\<lambda>(e, tks). ok (DeferStmt e, tks))
        else
          (let (token, tks) = pop tks0 in parseStatementLoop pb n token tks))
     else throw ''Incomplete statement'')"

definition parseStatement :: "Block parser \<Rightarrow> nat \<Rightarrow> Statement parser" where
  "parseStatement pb n tks0 =
     (let (token, tks) = peek tks0 1 in parseStatementLoop pb n token tks)"

fun parseBlockLoop ::
  "Block parser \<Rightarrow> nat \<Rightarrow> Token option \<Rightarrow> Statement list \<Rightarrow> VariableDecl list \<Rightarrow> TokenList
    \<Rightarrow> (Token \<times> Statement list \<times> VariableDecl list \<times> TokenList) result" where
  "parseBlockLoop pb 0 token stmts vars tks0 = None"
| "parseBlockLoop pb (Suc n) token stmts vars tks0 =
     bindResult (defined token) (\<lambda>token.
     if ttype token \<noteq> T_EOF \<and> ttype token \<noteq> T_RBrace then
       bindResult (parseStatement pb n tks0) (\<lambda>(stmnt, tks).
       let vars = (case stmnt of VariableDeclStmt d \<Rightarrow> vars @ [d] | _ \<Rightarrow> vars);
           (token, tks) = peek tks 1
       in parseBlockLoop pb n token (stmts @ [stmnt]) vars tks)
     else ok (token, stmts, vars, tks0))"

definition parseBlockBody :: "Block parser \<Rightarrow> nat \<Rightarrow> Block parser" where
  "parseBlockBody pb n tks0 =
     (let (token, tks) = pop tks0 in
      bindResult (defined token) (\<lambda>token.
      if ttype token \<noteq> T_LBrace then expected (quoted ''{'') (ttype token)
      else
        (let (token, tks) = peek tks 1 in
         bindResult (parseBlockLoop pb n token [] [] tks) (\<lambda>(token, stmts, vars, tks).
         if ttype token \<noteq> T_RBrace then expected (quoted ''}'') (ttype token)
         else ok (Block stmts vars, snd (pop tks))))))"

primrec parseBlock :: "nat \<Rightarrow> Block parser" where
  "parseBlock 0 tks = None"
| "parseBlock (Suc n) tks = parseBlockBody (parseBlock n) n tks"

fun parseFunctionParamsLoop ::
  "nat \<Rightarrow> Token option \<Rightarrow> Parameter list \<Rightarrow> TokenList
    \<Rightarrow> (Token \<times> Parameter list \<times> TokenList) result" where
  "parseFunctionParamsLoop 0 token params tks0 = None"
| "parseFunctionParamsLoop (Suc n) token params tks0 =
     bindResult (defined token) (\<lambda>token.
     if ttype token \<noteq> T_EOF \<and> ttype token \<noteq> T_RParen then
       bindResult (parseFunctionParameter tks0) (\<lambda>(param, tks).
       let (token, tks) = pop tks in
       bindResult (defined token) (\<lambda>tokenD.
       if ttype tokenD \<noteq> T_Comma then ok (tokenD, params @ [param], tks)
       else
         (let (token, tks) = peek tks 1 in
          parseFunctionParamsLoop n token (params @ [param]) tks)))
     else ok (token, params, tks0))"

definition parseFunction :: "nat \<Rightarrow> Func parser" where
  "parseFunction n tks0 =
     (let (token, tks) = pop tks0 in
      bindResult (defined token) (\<lambda>token.
      if ttype token = T_EOF then throw ''Unexpected end of file''
      else if ttype token = T_Identifier then
        (let nm = valueString token; (token, tks) = pop tks in
         bindResult (defined token) (\<lambda>token.
         if ttype token \<noteq> T_LParen then expected (quoted ''('') (ttype token)
         else
           (let (token, tks) = peek tks 1 in
            bindResult (defined token) (\<lambda>tokenD.
            let (token, tks) = (if ttype tokenD = T_RParen then pop tks else (token, tks)) in
            bindResult (parseFunctionParamsLoop n token [] tks) (\<lambda>(token, params, tks).
            if ttype token \<noteq> T_RParen then expected (quoted '')'') (ttype token)
            else
              bindResult (parseType tks) (\<lambda>(ret, tks).
              bindResult (parseBlock n tks) (\<lambda>(blk, tks).
              ok (\<lparr>f_name = nm, f_params = params, f_block = blk, f_returns = ret\<rparr>,
                  tks))))))))
      else expected ''function name'' (ttype token)))"

text \<open>
  \<open>parse\<close>: pops tokens until the end-of-stream token, parsing a function at every
  \<open>func\<close> token; the switch has no other case.
\<close>

fun parseLoop :: "nat \<Rightarrow> Token option \<Rightarrow> Func list \<Rightarrow> TokenList \<Rightarrow> ParsedFile result" where
  "parseLoop 0 token fs tks0 = None"
| "parseLoop (Suc n) token fs tks0 =
     bindResult (defined token) (\<lambda>token.
     if ttype token \<noteq> T_EOF then
       bindResult (if ttype token = T_Func
                   then bindResult (parseFunction n tks0) (\<lambda>(f, tks). ok (fs @ [f], tks))
                   else ok (fs, tks0)) (\<lambda>(fs, tks).
       let (token, tks) = pop tks in
       parseLoop n token fs tks)
     else ok \<lparr>funcs = fs\<rparr>)"

definition parse :: "nat \<Rightarrow> TokenList \<Rightarrow> ParsedFile result" where
  "parse n tokenList = (let (token, tks) = pop tokenList in parseLoop n token [] tks)"

section \<open>Notions used to state the properties\<close>

text \<open>
  The two shapes of iteration expression that \<open>translateForStatement\<close> tells apart, and
  the loop variable it uses: the bound name, or \<open>it\<close> when there is none (or an empty one).
\<close>

fun isRangeOperation :: "Expression \<Rightarrow> bool" where
  "isRangeOperation (BinaryOperation opr left right) = (opr = Op_Range)"
| "isRangeOperation _ = False"

fun isVariable :: "Expression \<Rightarrow> bool" where
  "isVariable (Variable v) = True"
| "isVariable _ = False"

definition itemNameOf :: "string option \<Rightarrow> string" where
  "itemNameOf itm = (case itm of None \<Rightarrow> ''it'' | Some n \<Rightarrow> if n = [] then ''it'' else n)"

text \<open>
  The lines that the statement loop of \<open>translateBlock\<close> pushes for one statement when
  \<open>k\<close> defer statements precede it in the block, and for a whole statement list.
\<close>

fun isDefer :: "Statement \<Rightarrow> bool" where
  "isDefer (DeferStmt e) = True"
| "isDefer _ = False"

definition deferCount :: "Statement list \<Rightarrow> nat" where
  "deferCount stmts = length (filter isDefer stmts)"

fun statementLines :: "Statement \<Rightarrow> ParsedFile \<Rightarrow> nat \<Rightarrow> nat \<Rightarrow> string list" where
  "statementLines (ExpressionStmt e) context lvl k =
     [indentOf lvl @ translateExpression e context]"
| "statementLines (ReturnStmt e) context lvl k =
     [indentOf lvl @ ''return '' @ translateExpression e context @ '';'']"
| "statementLines (VariableDeclStmt d) context lvl k =
     [indentOf lvl @ translateVariableDecl d context]"
| "statementLines (IfStmt st) context lvl k = [translateIfStatement st context lvl]"
| "statementLines (MatchStmt st) context lvl k = [translateMatchStatement st context lvl]"
| "statementLines (ForStmt st) context lvl k = translateForStatement st context lvl"
| "statementLines BreakStmt context lvl k = [indentOf lvl @ ''break;'']"
| "statementLines SkipStmt context lvl k = [indentOf lvl @ ''continue'']"
| "statementLines (DeferStmt e) context lvl k =
     [indentOf lvl @ ''const defer_'' @ numberToString k @ '' = () => { ''
        @ translateExpression e context @ ''; };'']"

fun blockLines :: "Statement list \<Rightarrow> ParsedFile \<Rightarrow> nat \<Rightarrow> nat \<Rightarrow> string list" where
  "blockLines [] context lvl k = []"
| "blockLines (s # ss) context lvl k =
     statementLines s context lvl k
     @ blockLines ss context lvl (if isDefer s then Suc k else k)"

text \<open>
  The token kinds on which the statement dispatch of \<open>parseStatement\<close> returns a
  statement, and those on which \<open>parseOperand\<close> returns an operand.
\<close>

definition startsStatement :: "TokenType \<Rightarrow> bool" where
  "startsStatement k =
     (k \<in> {T_Identifier, T_Return, T_Let, T_If, T_For, T_Break, T_Skip, T_Defer})"

definition startsOperand :: "TokenType \<Rightarrow> bool" where
  "startsOperand k =
     (k \<in> {T_String, T_Number, T_True, T_False, T_Identifier, T_It, T_LBracket})"

text \<open>
  The two forms of message that name an expected and an actual token kind:
  \<open>Expected X, got 'kind'\<close> and, at two places of the source, the same without the
  quotes around the kind. \<open>errorsNamed\<close> holds of an answer that is not a thrown
  \<open>Error\<close>, or whose message has one of these forms or is one of the two end-of-input
  messages; it says nothing about the host language's \<open>TypeError\<close>.
\<close>

definition expectedGot :: "string \<Rightarrow> TokenType \<Rightarrow> string" where
  "expectedGot what k = ''Expected '' @ what @ '', got '' @ quoted (tokenToString k)"

definition expectedGotPlain :: "string \<Rightarrow> TokenType \<Rightarrow> string" where
  "expectedGotPlain what k = ''Expected '' @ what @ '', got '' @ tokenToString k"

definition namesKinds :: "string \<Rightarrow> bool" where
  "namesKinds msg = (\<exists>what k. msg = expectedGot what k \<or> msg = expectedGotPlain what k)"

definition errorsNamed :: "'a result \<Rightarrow> bool" where
  "errorsNamed r =
     (\<forall>msg. r = Some (Inl (Error msg)) \<longrightarrow>
        namesKinds msg \<or> msg = ''Incomplete statement'' \<or> msg = ''Unexpected end of file'')"

lemmas cursor_defs = peek_def pop_def TokenList_new_def tokenAt_def Let_def
lemmas result_defs = defined_def bindResult_def ok_def throw_def expected_def
lemmas msg_defs = expectedGot_def expectedGotPlain_def

section \<open>Fuel\<close>

text \<open>
  More fuel never changes an answer: a parsing function that answers with some fuel
  gives the same answer with any larger fuel. The results stated below for one amount
  of fuel therefore hold for every larger amount.
\<close>

named_theorems extends_intros

lemma extends_refl [extends_intros]: "extends r r"
  by (simp add: extends_def)

lemma extends_None [extends_intros]: "extends None r"
  by (simp add: extends_def)

lemma extends_bindResult [extends_intros]:
  "extends m m' \<Longrightarrow> (\<And>x. extends (f x) (f' x)) \<Longrightarrow> extends (bindResult m f) (bindResult m' f')"
  by (auto simp: extends_def bindResult_def split: option.splits sum.splits)

lemma extends_case_prod [extends_intros]:
  "(\<And>a b. extends (f a b) (g a b)) \<Longrightarrow> extends (case_prod f p) (case_prod g p)"
  by (cases p) simp

lemma extends_if [extends_intros]:
  "(c \<Longrightarrow> extends a a') \<Longrightarrow> (\<not> c \<Longrightarrow> extends b b') \<Longrightarrow>
   extends (if c then a else b) (if c then a' else b')"
  by simp

lemma extends_Let [extends_intros]:
  "(\<And>x. extends (f x) (g x)) \<Longrightarrow> extends (Let v f) (Let v g)"
  by (simp add: Let_def)

lemma extends_case_option [extends_intros]:
  "extends a a' \<Longrightarrow> (\<And>x. extends (f x) (f' x)) \<Longrightarrow>
   extends (case_option a f v) (case_option a' f' v)"
  by (cases v) simp_all

lemma parseArrayLoop_mono:
  assumes pe: "\<And>x. extends (pe x) (pe' x)"
  shows "n \<le> n' \<Longrightarrow> extends (parseArrayLoop pe n token items tks) (parseArrayLoop pe' n' token items tks)"
proof (induction n arbitrary: n' token items tks)
  case 0
  show ?case by (simp add: extends_None)
next
  case (Suc n)
  then obtain m where m: "n' = Suc m" "n \<le> m" by (cases n') simp_all
  show ?case
    unfolding m parseArrayLoop.simps
    by (intro extends_intros pe Suc.IH m)
qed

lemma parseArray_mono:
  assumes pe: "\<And>x. extends (pe x) (pe' x)" and n: "n \<le> n'"
  shows "extends (parseArray pe n tks) (parseArray pe' n' tks)"
  unfolding parseArray_def
  by (intro extends_intros pe n parseArrayLoop_mono)

lemma parseFunctionCallLoop_mono:
  assumes pe: "\<And>x. extends (pe x) (pe' x)"
  shows "n \<le> n' \<Longrightarrow>
    extends (parseFunctionCallLoop pe n token argus tks) (parseFunctionCallLoop pe' n' token argus tks)"
proof (induction n arbitrary: n' token argus tks)
  case 0
  show ?case by (simp add: extends_None)
next
  case (Suc n)
  then obtain m where m: "n' = Suc m" "n \<le> m" by (cases n') simp_all
  show ?case
    unfolding m parseFunctionCallLoop.simps
    by (intro extends_intros pe Suc.IH m )
qed

lemma parseFunctionCall_mono:
  assumes pe: "\<And>x. extends (pe x) (pe' x)" and n: "n \<le> n'"
  shows "extends (parseFunctionCall pe n tks) (parseFunctionCall pe' n' tks)"
  unfolding parseFunctionCall_def
  by (intro extends_intros pe n parseFunctionCallLoop_mono)

lemma parseOperand_mono:
  assumes pe: "\<And>x. extends (pe x) (pe' x)" and n: "n \<le> n'"
  shows "extends (parseOperand pe n tks) (parseOperand pe' n' tks)"
  unfolding parseOperand_def
  by (intro extends_intros pe n parseFunctionCall_mono parseArray_mono)

lemma parseExpressionLoop_mono:
  assumes pe: "\<And>x. extends (pe x) (pe' x)"
  shows "n \<le> n' \<Longrightarrow>
    extends (parseExpressionLoop pe n operandsStack operatorStack tks) (parseExpressionLoop pe' n' operandsStack operatorStack tks)"
proof (induction n arbitrary: n' operandsStack operatorStack tks)
  case 0
  show ?case by (simp add: extends_None)
next
  case (Suc n)
  then obtain m where m: "n' = Suc m" "n \<le> m" by (cases n') simp_all
  show ?case
    unfolding m parseExpressionLoop.simps
    by (intro extends_intros pe Suc.IH m parseOperand_mono)
qed

lemma parseExpressionBody_mono:
  assumes pe: "\<And>x. extends (pe x) (pe' x)" and n: "n \<le> n'"
  shows "extends (parseExpressionBody pe n tks) (parseExpressionBody pe' n' tks)"
  unfolding parseExpressionBody_def
  by (intro extends_intros pe n parseExpressionLoop_mono parseOperand_mono)

lemma parseExpression_mono:
  "n \<le> n' \<Longrightarrow> extends (parseExpression n tks) (parseExpression n' tks)"
proof (induction n arbitrary: n' tks)
  case 0
  show ?case by (simp add: extends_None)
next
  case (Suc n)
  then obtain m where m: "n' = Suc m" "n \<le> m" by (cases n') simp_all
  show ?case
    unfolding m parseExpression.simps
    by (intro parseExpressionBody_mono Suc.IH m)
qed

lemma parseVariableDecl_mono:
  assumes n: "n \<le> n'"
  shows "extends (parseVariableDecl n tks) (parseVariableDecl n' tks)"
  unfolding parseVariableDecl_def
  by (intro extends_intros parseExpression_mono n)

lemma parseElseIfLoop_mono:
  assumes pb: "\<And>x. extends (pb x) (pb' x)"
  shows "n \<le> n' \<Longrightarrow>
    extends (parseElseIfLoop pb n token elifs tks) (parseElseIfLoop pb' n' token elifs tks)"
proof (induction n arbitrary: n' token elifs tks)
  case 0
  show ?case by (simp add: extends_None)
next
  case (Suc n)
  then obtain m where m: "n' = Suc m" "n \<le> m" by (cases n') simp_all
  show ?case
    unfolding m parseElseIfLoop.simps
    by (intro extends_intros pb Suc.IH m parseExpression_mono)
qed

lemma parseIfStatement_mono:
  assumes pb: "\<And>x. extends (pb x) (pb' x)" and n: "n \<le> n'"
  shows "extends (parseIfStatement pb n tks) (parseIfStatement pb' n' tks)"
  unfolding parseIfStatement_def
  by (intro extends_intros pb n parseExpression_mono parseElseIfLoop_mono)

lemma parseMatchCase_mono:
  assumes pb: "\<And>x. extends (pb x) (pb' x)" and n: "n \<le> n'"
  shows "extends (parseMatchCase pb n tks) (parseMatchCase pb' n' tks)"
  unfolding parseMatchCase_def
  by (intro extends_intros pb n parseExpression_mono)

lemma parseMatchLoop_mono:
  assumes pb: "\<And>x. extends (pb x) (pb' x)"
  shows "n \<le> n' \<Longrightarrow>
    extends (parseMatchLoop pb n token cs tks) (parseMatchLoop pb' n' token cs tks)"
proof (induction n arbitrary: n' token cs tks)
  case 0
  show ?case by (simp add: extends_None)
next
  case (Suc n)
  then obtain m where m: "n' = Suc m" "n \<le> m" by (cases n') simp_all
  show ?case
    unfolding m parseMatchLoop.simps
    by (intro extends_intros pb Suc.IH m parseMatchCase_mono)
qed

lemma parseMatchStatement_mono:
  assumes pb: "\<And>x. extends (pb x) (pb' x)" and n: "n \<le> n'"
  shows "extends (parseMatchStatement pb n tks) (parseMatchStatement pb' n' tks)"
  unfolding parseMatchStatement_def
  by (intro extends_intros pb n parseExpression_mono parseMatchLoop_mono)

lemma parseForStatement_mono:
  assumes pb: "\<And>x. extends (pb x) (pb' x)" and n: "n \<le> n'"
  shows "extends (parseForStatement pb n tks) (parseForStatement pb' n' tks)"
  unfolding parseForStatement_def
  by (intro extends_intros pb n parseExpression_mono)

lemma parseStatementLoop_mono:
  assumes pb: "\<And>x. extends (pb x) (pb' x)"
  shows "n \<le> n' \<Longrightarrow>
    extends (parseStatementLoop pb n token tks) (parseStatementLoop pb' n' token tks)"
proof (induction n arbitrary: n' token tks)
  case 0
  show ?case by (simp add: extends_None)
next
  case (Suc n)
  then obtain m where m: "n' = Suc m" "n \<le> m" by (cases n') simp_all
  show ?case
    unfolding m parseStatementLoop.simps
    by (intro extends_intros pb Suc.IH m parseExpression_mono parseVariableDecl_mono parseIfStatement_mono parseMatchStatement_mono parseForStatement_mono)
qed

lemma parseStatement_mono:
  assumes pb: "\<And>x. extends (pb x) (pb' x)" and n: "n \<le> n'"
  shows "extends (parseStatement pb n tks) (parseStatement pb' n' tks)"
  unfolding parseStatement_def
  by (intro extends_intros pb n parseStatementLoop_mono)

lemma parseBlockLoop_mono:
  assumes pb: "\<And>x. extends (pb x) (pb' x)"
  shows "n \<le> n' \<Longrightarrow>
    extends (parseBlockLoop pb n token stmts vars tks) (parseBlockLoop pb' n' token stmts vars tks)"
proof (induction n arbitrary: n' token stmts vars tks)
  case 0
  show ?case by (simp add: extends_None)
next
  case (Suc n)
  then obtain m where m: "n' = Suc m" "n \<le> m" by (cases n') simp_all
  show ?case
    unfolding m parseBlockLoop.simps
    by (intro extends_intros pb Suc.IH m parseStatement_mono)
qed

lemma parseBlockBody_mono:
  assumes pb: "\<And>x. extends (pb x) (pb' x)" and n: "n \<le> n'"
  shows "extends (parseBlockBody pb n tks) (parseBlockBody pb' n' tks)"
  unfolding parseBlockBody_def
  by (intro extends_intros pb n parseBlockLoop_mono)

lemma parseBlock_mono:
  "n \<le> n' \<Longrightarrow> extends (parseBlock n tks) (parseBlock n' tks)"
proof (induction n arbitrary: n' tks)
  case 0
  show ?case by (simp add: extends_None)
next
  case (Suc n)
  then obtain m where m: "n' = Suc m" "n \<le> m" by (cases n') simp_all
  show ?case
    unfolding m parseBlock.simps
    by (intro parseBlockBody_mono Suc.IH m)
qed

lemma parseFunctionParamsLoop_mono:
  "n \<le> n' \<Longrightarrow>
    extends (parseFunctionParamsLoop n token params tks)
            (parseFunctionParamsLoop n' token params tks)"
proof (induction n arbitrary: n' token params tks)
  case 0
  show ?case by (simp add: extends_None)
next
  case (Suc n)
  then obtain m where m: "n' = Suc m" "n \<le> m" by (cases n') simp_all
  show ?case
    unfolding m parseFunctionParamsLoop.simps
    by (intro extends_intros Suc.IH m)
qed

lemma parseFunction_mono:
  assumes n: "n \<le> n'"
  shows "extends (parseFunction n tks) (parseFunction n' tks)"
  unfolding parseFunction_def
  by (intro extends_intros parseFunctionParamsLoop_mono parseBlock_mono n)

lemma parseLoop_mono:
  "n \<le> n' \<Longrightarrow> extends (parseLoop n token fs tks) (parseLoop n' token fs tks)"
proof (induction n arbitrary: n' token fs tks)
  case 0
  show ?case by (simp add: extends_None)
next
  case (Suc n)
  then obtain m where m: "n' = Suc m" "n \<le> m" by (cases n') simp_all
  show ?case
    unfolding m parseLoop.simps
    by (intro extends_intros parseFunction_mono Suc.IH m)
qed

lemma parse_mono: "n \<le> n' \<Longrightarrow> extends (parse n tks) (parse n' tks)"
  unfolding parse_def by (intro extends_intros parseLoop_mono)

lemma parse_fuel_independent:
  "parse n tks = Some r \<Longrightarrow> n \<le> n' \<Longrightarrow> parse n' tks = Some r"
  using parse_mono [of n n' tks] by (simp add: extends_def)

section \<open>Messages of the errors the parser throws\<close>

text \<open>
  Every \<open>Error\<close> that any parsing function throws names an expected and an actual
  token kind, except \<open>Incomplete statement\<close> and \<open>Unexpected end of file\<close>.
\<close>

named_theorems named_intros

lemma named_None [named_intros]: "errorsNamed None"
  by (simp add: errorsNamed_def)

lemma named_ok [named_intros]: "errorsNamed (ok x)"
  by (simp add: errorsNamed_def ok_def)

lemma named_defined [named_intros]: "errorsNamed (defined t)"
  by (cases t) (simp_all add: errorsNamed_def defined_def ok_def)

lemma named_expected [named_intros]: "errorsNamed (expected what k)"
  by (auto simp: errorsNamed_def expected_def throw_def namesKinds_def msg_defs)

lemma named_expected_plain [named_intros]:
  "errorsNamed (throw (''Expected '' @ what @ '', got '' @ tokenToString k))"
  by (auto simp: errorsNamed_def throw_def namesKinds_def msg_defs)

lemma named_incomplete [named_intros]: "errorsNamed (throw ''Incomplete statement'')"
  by (simp add: errorsNamed_def throw_def)

lemma named_eof [named_intros]: "errorsNamed (throw ''Unexpected end of file'')"
  by (simp add: errorsNamed_def throw_def)

lemma named_bindResult [named_intros]:
  "errorsNamed m \<Longrightarrow> (\<And>x. errorsNamed (f x)) \<Longrightarrow> errorsNamed (bindResult m f)"
  by (auto simp: errorsNamed_def bindResult_def split: option.splits sum.splits)

lemma named_case_prod [named_intros]:
  "(\<And>a b. errorsNamed (f a b)) \<Longrightarrow> errorsNamed (case_prod f p)"
  by (cases p) simp

lemma named_case_prod_applied [named_intros]:
  "(\<And>a b. errorsNamed (f a b c)) \<Longrightarrow> errorsNamed (case_prod f p c)"
  by (cases p) simp

lemma named_if [named_intros]:
  "(c \<Longrightarrow> errorsNamed a) \<Longrightarrow> (\<not> c \<Longrightarrow> errorsNamed b) \<Longrightarrow> errorsNamed (if c then a else b)"
  by simp

lemma named_Let [named_intros]: "(\<And>x. errorsNamed (f x)) \<Longrightarrow> errorsNamed (Let v f)"
  by (simp add: Let_def)

lemma named_case_option [named_intros]:
  "errorsNamed a \<Longrightarrow> (\<And>x. errorsNamed (f x)) \<Longrightarrow> errorsNamed (case_option a f v)"
  by (cases v) simp_all

lemma parseType_named: "errorsNamed (parseType tks)"
  unfolding parseType_def by (intro named_intros)

lemma parseFunctionParameter_named: "errorsNamed (parseFunctionParameter tks)"
  unfolding parseFunctionParameter_def by (intro named_intros parseType_named)

lemma parseOperator_named: "errorsNamed (parseOperator tks)"
  unfolding parseOperator_def by (intro named_intros)

lemma parseArrayLoop_named:
  assumes pe: "\<And>x. errorsNamed (pe x)"
  shows "errorsNamed (parseArrayLoop pe n token items tks)"
proof (induction n arbitrary: token items tks)
  case 0
  show ?case by (simp add: named_None)
next
  case (Suc n)
  show ?case
    unfolding parseArrayLoop.simps
    by (intro named_intros pe Suc.IH )
qed

lemma parseArray_named:
  assumes pe: "\<And>x. errorsNamed (pe x)"
  shows "errorsNamed (parseArray pe n tks)"
  unfolding parseArray_def
  by (intro named_intros pe parseArrayLoop_named)

lemma parseFunctionCallLoop_named:
  assumes pe: "\<And>x. errorsNamed (pe x)"
  shows "errorsNamed (parseFunctionCallLoop pe n token argus tks)"
proof (induction n arbitrary: token argus tks)
  case 0
  show ?case by (simp add: named_None)
next
  case (Suc n)
  show ?case
    unfolding parseFunctionCallLoop.simps
    by (intro named_intros pe Suc.IH )
qed

lemma parseFunctionCall_named:
  assumes pe: "\<And>x. errorsNamed (pe x)"
  shows "errorsNamed (parseFunctionCall pe n tks)"
  unfolding parseFunctionCall_def
  by (intro named_intros pe parseFunctionCallLoop_named)

lemma parseOperand_named:
  assumes pe: "\<And>x. errorsNamed (pe x)"
  shows "errorsNamed (parseOperand pe n tks)"
  unfolding parseOperand_def
  by (intro named_intros pe parseFunctionCall_named parseArray_named)

lemma parseExpressionLoop_named:
  assumes pe: "\<And>x. errorsNamed (pe x)"
  shows "errorsNamed (parseExpressionLoop pe n operandsStack operatorStack tks)"
proof (induction n arbitrary: operandsStack operatorStack tks)
  case 0
  show ?case by (simp add: named_None)
next
  case (Suc n)
  show ?case
    unfolding parseExpressionLoop.simps
    by (intro named_intros pe Suc.IH parseOperand_named parseOperator_named)
qed

lemma parseExpressionBody_named:
  assumes pe: "\<And>x. errorsNamed (pe x)"
  shows "errorsNamed (parseExpressionBody pe n tks)"
  unfolding parseExpressionBody_def
  by (intro named_intros pe parseExpressionLoop_named parseOperand_named)

lemma parseExpression_named: "errorsNamed (parseExpression n tks)"
proof (induction n arbitrary: tks)
  case 0
  show ?case by (simp add: named_None)
next
  case (Suc n)
  show ?case
    unfolding parseExpression.simps
    by (intro parseExpressionBody_named Suc.IH)
qed

lemma parseVariableDecl_named: "errorsNamed (parseVariableDecl n tks)"
  unfolding parseVariableDecl_def
  by (intro named_intros parseExpression_named parseType_named)

lemma parseElseIfLoop_named:
  assumes pb: "\<And>x. errorsNamed (pb x)"
  shows "errorsNamed (parseElseIfLoop pb n token elifs tks)"
proof (induction n arbitrary: token elifs tks)
  case 0
  show ?case by (simp add: named_None)
next
  case (Suc n)
  show ?case
    unfolding parseElseIfLoop.simps
    by (intro named_intros pb Suc.IH parseExpression_named)
qed

lemma parseIfStatement_named:
  assumes pb: "\<And>x. errorsNamed (pb x)"
  shows "errorsNamed (parseIfStatement pb n tks)"
  unfolding parseIfStatement_def
  by (intro named_intros pb parseExpression_named parseElseIfLoop_named)

lemma parseMatchCase_named:
  assumes pb: "\<And>x. errorsNamed (pb x)"
  shows "errorsNamed (parseMatchCase pb n tks)"
  unfolding parseMatchCase_def
  by (intro named_intros pb parseExpression_named)

lemma parseMatchLoop_named:
  assumes pb: "\<And>x. errorsNamed (pb x)"
  shows "errorsNamed (parseMatchLoop pb n token cs tks)"
proof (induction n arbitrary: token cs tks)
  case 0
  show ?case by (simp add: named_None)
next
  case (Suc n)
  show ?case
    unfolding parseMatchLoop.simps
    by (intro named_intros pb Suc.IH parseMatchCase_named)
qed

lemma parseMatchStatement_named:
  assumes pb: "\<And>x. errorsNamed (pb x)"
  shows "errorsNamed (parseMatchStatement pb n tks)"
  unfolding parseMatchStatement_def
  by (intro named_intros pb parseExpression_named parseMatchLoop_named)

lemma parseForStatement_named:
  assumes pb: "\<And>x. errorsNamed (pb x)"
  shows "errorsNamed (parseForStatement pb n tks)"
  unfolding parseForStatement_def
  by (intro named_intros pb parseExpression_named)

lemma parseStatementLoop_named:
  assumes pb: "\<And>x. errorsNamed (pb x)"
  shows "errorsNamed (parseStatementLoop pb n token tks)"
proof (induction n arbitrary: token tks)
  case 0
  show ?case by (simp add: named_None)
next
  case (Suc n)
  show ?case
    unfolding parseStatementLoop.simps
    by (intro named_intros pb Suc.IH parseExpression_named parseVariableDecl_named parseIfStatement_named parseMatchStatement_named parseForStatement_named)
qed

lemma parseStatement_named:
  assumes pb: "\<And>x. errorsNamed (pb x)"
  shows "errorsNamed (parseStatement pb n tks)"
  unfolding parseStatement_def
  by (intro named_intros pb parseStatementLoop_named)

lemma parseBlockLoop_named:
  assumes pb: "\<And>x. errorsNamed (pb x)"
  shows "errorsNamed (parseBlockLoop pb n token stmts vars tks)"
proof (induction n arbitrary: token stmts vars tks)
  case 0
  show ?case by (simp add: named_None)
next
  case (Suc n)
  show ?case
    unfolding parseBlockLoop.simps
    by (intro named_intros pb Suc.IH parseStatement_named)
qed

lemma parseBlockBody_named:
  assumes pb: "\<And>x. errorsNamed (pb x)"
  shows "errorsNamed (parseBlockBody pb n tks)"
  unfolding parseBlockBody_def
  by (intro named_intros pb parseBlockLoop_named)

lemma parseBlock_named: "errorsNamed (parseBlock n tks)"
proof (induction n arbitrary: tks)
  case 0
  show ?case by (simp add: named_None)
next
  case (Suc n)
  show ?case
    unfolding parseBlock.simps
    by (intro parseBlockBody_named Suc.IH)
qed

lemma parseFunctionParamsLoop_named:
  "errorsNamed (parseFunctionParamsLoop n token params tks)"
proof (induction n arbitrary: token params tks)
  case 0
  show ?case by (simp add: named_None)
next
  case (Suc n)
  show ?case
    unfolding parseFunctionParamsLoop.simps
    by (intro named_intros Suc.IH parseFunctionParameter_named)
qed

lemma parseFunction_named: "errorsNamed (parseFunction n tks)"
  unfolding parseFunction_def
  by (intro named_intros parseFunctionParamsLoop_named parseBlock_named parseType_named)

lemma parseLoop_named: "errorsNamed (parseLoop n token fs tks)"
proof (induction n arbitrary: token fs tks)
  case 0
  show ?case by (simp add: named_None)
next
  case (Suc n)
  show ?case
    unfolding parseLoop.simps
    by (intro named_intros parseFunction_named Suc.IH)
qed

lemma parse_named: "errorsNamed (parse n tks)"
  unfolding parse_def by (intro named_intros parseLoop_named)

section \<open>Properties of the token cursor\<close>

text \<open>
  Claim C1. Once every token has been consumed, a further \<open>pop\<close> should return the
  final token again, and so should a \<open>peek\<close> past the end. On the one-token
  sequence that \<open>lex\<close> produces for the empty text, the first \<open>pop\<close> returns the
  end-of-stream token; the second and the third \<open>pop\<close>, and a \<open>peek\<close> after the
  first \<open>pop\<close>, all read the array one place beyond its end and return
  \<open>undefined\<close>. In the pipeline the same over-read happens on the text
  \<open>func main(): void { ) break\<close>, where the parser then fails with the host
  language's type error instead of a parse error.
\<close>

theorem pop_past_end_undefined:
  "lexTokens [] = [tok T_EOF]
   \<and> fst (pop (lex [])) = Some (tok T_EOF)
   \<and> fst (pop (snd (pop (lex [])))) = None
   \<and> fst (pop (snd (pop (snd (pop (lex [])))))) = None
   \<and> fst (peek (snd (pop (lex []))) 1) = None
   \<and> parse 30 (lex ''func main(): void { ) break'') = Some (Inl TypeError)"
  by code_simp

section \<open>Properties of the code generator\<close>

lemma findIndex_ge: "- 1 \<le> findIndex p xs"
  by (induction xs) (auto simp: Let_def)

lemma findIndex_found: "(findIndex p xs \<noteq> - 1) = (\<exists>x\<in>set xs. p x)"
proof (induction xs)
  case Nil
  show ?case by simp
next
  case (Cons x xs)
  have "- 1 \<le> findIndex p xs" by (rule findIndex_ge)
  with Cons show ?case by (auto simp: Let_def)
qed

lemma indentOf_values:
  "indentOf 0 = []" "indentOf 1 = ''    ''" "indentOf (Suc 0) = ''    ''"
  "indentOf 2 = ''        ''" "indentOf (Suc (Suc 0)) = ''        ''"
  by code_simp+

lemma numberToString_values: "numberToString 0 = ''0''" "numberToString (Suc 0) = ''1''"
  by code_simp+

text \<open>
  Claim C9. A call named \<open>print\<close> lowers to \<open>console.log(args);\<close>; any other call
  whose name is the name of a function of the program lowers to \<open>name(args)\<close>; a call
  whose name is neither lowers to the empty text. The generator has no failing path:
  \<open>translateFunctionCall\<close> returns a string in every case. The same three equations
  hold of \<open>translateExpression\<close> at a call expression, which is where the generator
  meets a call.
\<close>

theorem translateFunctionCall_lowering:
  "(nm = ''print'' \<longrightarrow>
      translateFunctionCall (FunctionCall nm argus) context =
        ''console.log('' @ join '', '' (map (\<lambda>arg. translateExpression arg context) argus) @ '');'')
   \<and> (nm \<noteq> ''print'' \<and> (\<exists>func\<in>set (funcs context). f_name func = nm) \<longrightarrow>
      translateFunctionCall (FunctionCall nm argus) context =
        nm @ ''('' @ join '', '' (map (\<lambda>arg. translateExpression arg context) argus) @ '')'')
   \<and> (nm \<noteq> ''print'' \<and> \<not> (\<exists>func\<in>set (funcs context). f_name func = nm) \<longrightarrow>
      translateFunctionCall (FunctionCall nm argus) context = [])
   \<and> (nm = ''print'' \<longrightarrow>
      translateExpression (FunctionCallExpr (FunctionCall nm argus)) context =
        ''console.log('' @ join '', '' (map (\<lambda>arg. translateExpression arg context) argus) @ '');'')
   \<and> (nm \<noteq> ''print'' \<and> (\<exists>func\<in>set (funcs context). f_name func = nm) \<longrightarrow>
      translateExpression (FunctionCallExpr (FunctionCall nm argus)) context =
        nm @ ''('' @ join '', '' (map (\<lambda>arg. translateExpression arg context) argus) @ '')'')
   \<and> (nm \<noteq> ''print'' \<and> \<not> (\<exists>func\<in>set (funcs context). f_name func = nm) \<longrightarrow>
      translateExpression (FunctionCallExpr (FunctionCall nm argus)) context = [])"
  by (simp add: findIndex_found Let_def)

theorem translateFunctionCall_lowering_witness:
  "translateFunctionCall (FunctionCall ''print'' [StringLit ''hi''])
      \<lparr>funcs = [\<lparr>f_name = ''greet'', f_params = [], f_block = Block [] [], f_returns = DT_Void\<rparr>]\<rparr>
     = ''console.log('' @ [CHR 0x27] @ ''hi'' @ [CHR 0x27] @ '');''
   \<and> translateFunctionCall (FunctionCall ''greet'' [I32Lit ''1'', Variable ''x''])
      \<lparr>funcs = [\<lparr>f_name = ''greet'', f_params = [], f_block = Block [] [], f_returns = DT_Void\<rparr>]\<rparr>
     = ''greet(1, x)''
   \<and> translateFunctionCall (FunctionCall ''missing'' [I32Lit ''1''])
      \<lparr>funcs = [\<lparr>f_name = ''greet'', f_params = [], f_block = Block [] [], f_returns = DT_Void\<rparr>]\<rparr>
     = []
   \<and> translateExpression (FunctionCallExpr (FunctionCall ''print'' [StringLit ''hi'']))
      \<lparr>funcs = [\<lparr>f_name = ''greet'', f_params = [], f_block = Block [] [], f_returns = DT_Void\<rparr>]\<rparr>
     = ''console.log('' @ [CHR 0x27] @ ''hi'' @ [CHR 0x27] @ '');''
   \<and> translateExpression (FunctionCallExpr (FunctionCall ''greet'' [I32Lit ''1'', Variable ''x'']))
      \<lparr>funcs = [\<lparr>f_name = ''greet'', f_params = [], f_block = Block [] [], f_returns = DT_Void\<rparr>]\<rparr>
     = ''greet(1, x)''
   \<and> translateExpression (FunctionCallExpr (FunctionCall ''missing'' [I32Lit ''1'']))
      \<lparr>funcs = [\<lparr>f_name = ''greet'', f_params = [], f_block = Block [] [], f_returns = DT_Void\<rparr>]\<rparr>
     = []"
  using
    translateFunctionCall_lowering [of "''print''" "[StringLit ''hi'']"
      "\<lparr>funcs = [\<lparr>f_name = ''greet'', f_params = [], f_block = Block [] [], f_returns = DT_Void\<rparr>]\<rparr>"]
    translateFunctionCall_lowering [of "''greet''" "[I32Lit ''1'', Variable ''x'']"
      "\<lparr>funcs = [\<lparr>f_name = ''greet'', f_params = [], f_block = Block [] [], f_returns = DT_Void\<rparr>]\<rparr>"]
    translateFunctionCall_lowering [of "''missing''" "[I32Lit ''1'']"
      "\<lparr>funcs = [\<lparr>f_name = ''greet'', f_params = [], f_block = Block [] [], f_returns = DT_Void\<rparr>]\<rparr>"]
  by simp

lemma join_snoc: "ys \<noteq> [] \<Longrightarrow> join sep (ys @ [x]) = join sep ys @ sep @ x"
proof (induction sep ys rule: join.induct)
  case (1 sep)
  then show ?case by simp
next
  case (2 sep y)
  show ?case by simp
next
  case (3 sep a b ys)
  then show ?case by simp
qed

lemma translateLines_eq:
  "translateLines parsedFile =
     concat (map (\<lambda>func. translateFunction func parsedFile @ [[]]) (funcs parsedFile))
     @ (if (\<exists>func\<in>set (funcs parsedFile). f_name func = ''main'') then [''main();''] else [])"
  by (simp add: translateLines_def findIndex_found Let_def)

lemma concat_funcs_last:
  "fs \<noteq> [] \<Longrightarrow>
     \<exists>ys. ys \<noteq> [] \<and> concat (map (\<lambda>func. translateFunction func pf @ [[]]) fs) = ys @ [[]]"
proof (induction fs rule: rev_induct)
  case Nil
  then show ?case by simp
next
  case (snoc f fs)
  have "concat (map (\<lambda>func. translateFunction func pf @ [[]]) (fs @ [f]))
        = (concat (map (\<lambda>func. translateFunction func pf @ [[]]) fs) @ translateFunction f pf)
          @ [[]]"
    by simp
  moreover have
    "concat (map (\<lambda>func. translateFunction func pf @ [[]]) fs) @ translateFunction f pf \<noteq> []"
    by (simp add: translateFunction_def)
  ultimately show ?case by blast
qed

lemma no_main_no_suffix:
  assumes "\<not> (\<exists>func\<in>set (funcs pf). f_name func = ''main'')"
  shows "\<not> suffix ''main();'' (translate pf)"
proof (cases "funcs pf = []")
  case True
  then show ?thesis by (simp add: translate_def translateLines_eq suffix_def)
next
  case False
  then obtain ys where ys: "ys \<noteq> []"
    "concat (map (\<lambda>func. translateFunction func pf @ [[]]) (funcs pf)) = ys @ [[]]"
    using concat_funcs_last by blast
  with assms have "translate pf = join [CHR 0x0A] ys @ [CHR 0x0A]"
    by (simp add: translate_def translateLines_eq join_snoc)
  then show ?thesis by (auto simp: suffix_def)
qed

lemma main_suffix:
  assumes "\<exists>func\<in>set (funcs pf). f_name func = ''main''"
  shows "suffix ''main();'' (translate pf)"
proof -
  from assms have ne: "funcs pf \<noteq> []" by auto
  then obtain ys where ys: "ys \<noteq> []"
    "concat (map (\<lambda>func. translateFunction func pf @ [[]]) (funcs pf)) = ys @ [[]]"
    using concat_funcs_last by blast
  with assms have "translate pf = join [CHR 0x0A] (ys @ [[]]) @ [CHR 0x0A] @ ''main();''"
    using join_snoc [of "ys @ [[]]" "[CHR 0x0A]" "''main();''"]
    by (simp add: translate_def translateLines_eq)
  then show ?thesis unfolding suffix_def by (metis append.assoc)
qed

text \<open>
  Claim C4, as amended. The generator appends the line \<open>main();\<close> after the lines of all
  function definitions if and only if some function of the program is named \<open>main\<close>,
  whatever its parameter list: the lines of \<open>translate\<close> are those of the functions
  followed by \<open>main();\<close> exactly in that case, and the generated text ends in
  \<open>main();\<close> exactly in that case.
\<close>

theorem main_invocation_iff_named_main:
  "translateLines parsedFile =
     concat (map (\<lambda>func. translateFunction func parsedFile @ [[]]) (funcs parsedFile))
     @ (if (\<exists>func\<in>set (funcs parsedFile). f_name func = ''main'') then [''main();''] else [])
   \<and> (suffix ''main();'' (translate parsedFile)
        \<longleftrightarrow> (\<exists>func\<in>set (funcs parsedFile). f_name func = ''main''))"
  using translateLines_eq main_suffix no_main_no_suffix by blast

theorem main_invocation_iff_named_main_witness:
  "suffix ''main();''
     (translate \<lparr>funcs = [\<lparr>f_name = ''main'', f_params = [], f_block = Block [] [],
                            f_returns = DT_Void\<rparr>]\<rparr>)
   \<and> \<not> suffix ''main();''
     (translate \<lparr>funcs = [\<lparr>f_name = ''start'', f_params = [], f_block = Block [] [],
                            f_returns = DT_Void\<rparr>]\<rparr>)"
  using
    main_invocation_iff_named_main [of "\<lparr>funcs = [\<lparr>f_name = ''main'', f_params = [],
      f_block = Block [] [], f_returns = DT_Void\<rparr>]\<rparr>"]
    main_invocation_iff_named_main [of "\<lparr>funcs = [\<lparr>f_name = ''start'', f_params = [],
      f_block = Block [] [], f_returns = DT_Void\<rparr>]\<rparr>"]
  by simp

text \<open>
  Counterexample to claim C4 as stated: the only function named \<open>main\<close> takes the
  parameter \<open>x\<close>, and the invocation \<open>main();\<close> is appended all the same.
\<close>

theorem main_with_parameters_invoked:
  "translateLines \<lparr>funcs = [\<lparr>f_name = ''main'',
       f_params = [\<lparr>p_name = ''x'', p_type = DT_I32\<rparr>],
       f_block = Block [] [], f_returns = DT_Void\<rparr>]\<rparr>
   = [''function main(x) {'', ''}'', [], ''main();'']"
  by (simp add: translateLines_def translateFunction_def translateFunctionParams_def Let_def)

text \<open>
  Claim C2, as amended. When the iteration expression of a for-loop is a variable
  reference, the generator emits the element-wise loop \<open>for (const name of v) {\<close>, the
  lines of the block and the closing brace, where \<open>name\<close> is the bound name or \<open>it\<close>.
  When the iteration expression is present and is neither a range operation nor a
  variable reference (an array literal, a call, a literal, another binary operation),
  the generator emits no line at all for the loop.
\<close>

theorem for_each_only_over_variable:
  "(\<forall>v. e = Variable v \<longrightarrow>
      translateForStatement (ForStatement itm (Some e) blk) context lvl =
        [indentOf lvl @ ''for (const '' @ itemNameOf itm @ '' of '' @ v @ '') {'']
        @ translateBlock blk context (lvl + 1)
        @ [indentOf lvl @ ''}''])
   \<and> (\<not> isRangeOperation e \<and> \<not> isVariable e \<longrightarrow>
      translateForStatement (ForStatement itm (Some e) blk) context lvl = [])"
  by (cases e) (simp_all add: itemNameOf_def Let_def)

theorem for_each_only_over_variable_witness:
  "translateForStatement (ForStatement None (Some (Variable ''xs'')) (Block [BreakStmt] []))
      \<lparr>funcs = []\<rparr> 1
     = [''    for (const it of xs) {'', ''        break;'', ''    }'']
   \<and> \<not> isRangeOperation (BinaryOperation Op_Add (Variable ''a'') (Variable ''b''))
   \<and> \<not> isVariable (BinaryOperation Op_Add (Variable ''a'') (Variable ''b''))
   \<and> translateForStatement
        (ForStatement None (Some (BinaryOperation Op_Add (Variable ''a'') (Variable ''b'')))
           (Block [BreakStmt] []))
        \<lparr>funcs = []\<rparr> 1 = []"
  using
    for_each_only_over_variable [of "Variable ''xs''" None "Block [BreakStmt] []"
      "\<lparr>funcs = []\<rparr>" 1]
    for_each_only_over_variable [of "BinaryOperation Op_Add (Variable ''a'') (Variable ''b'')"
      None "Block [BreakStmt] []" "\<lparr>funcs = []\<rparr>" 1]
  by (simp add: itemNameOf_def indentOf_values Let_def)

text \<open>
  Counterexample to claim C2 as stated: for-loops over an array literal and over a
  function call, neither of them a range operation, produce no loop.
\<close>

theorem for_over_array_emits_nothing:
  "translateForStatement
     (ForStatement (Some ''x'') (Some (Array DT_I32 [I32Lit ''1'', I32Lit ''2''])) (Block [] []))
     \<lparr>funcs = []\<rparr> 1 = []
   \<and> translateForStatement
     (ForStatement None (Some (FunctionCallExpr (FunctionCall ''items'' []))) (Block [] []))
     \<lparr>funcs = []\<rparr> 1 = []"
  by (simp add: Let_def)

lemma range_loop_lines:
  "translateForStatement (ForStatement itm (Some (BinaryOperation Op_Range left right)) blk)
     context lvl =
     [indentOf lvl @ ''for (let '' @ itemNameOf itm @ '' = '' @ translateExpression left context
        @ ''; '' @ itemNameOf itm @ '' < '' @ translateExpression right context
        @ ''; '' @ itemNameOf itm @ ''++) {'']
     @ translateBlock blk context (lvl + 1)
     @ [indentOf lvl @ ''}'']"
  by (simp add: itemNameOf_def translateRangeExpression_def Let_def)

lemma fold_statements:
  "fold (\<lambda>statement (result, defers).
      case statement of
        ExpressionStmt e \<Rightarrow>
          (result @ [indentOf lvl @ translateExpression e context], defers)
      | ReturnStmt e \<Rightarrow>
          (result @ [indentOf lvl @ ''return '' @ translateExpression e context @ '';''],
           defers)
      | VariableDeclStmt d \<Rightarrow>
          (result @ [indentOf lvl @ translateVariableDecl d context], defers)
      | IfStmt st \<Rightarrow>
          (result @ [translateIfStatement st context lvl], defers)
      | MatchStmt st \<Rightarrow>
          (result @ [translateMatchStatement st context lvl], defers)
      | ForStmt st \<Rightarrow>
          (result @ translateForStatement st context lvl, defers)
      | BreakStmt \<Rightarrow> (result @ [indentOf lvl @ ''break;''], defers)
      | SkipStmt \<Rightarrow> (result @ [indentOf lvl @ ''continue''], defers)
      | DeferStmt e \<Rightarrow>
          (let deferName = ''defer_'' @ numberToString (length defers) in
           (result @ [indentOf lvl @ ''const '' @ deferName @ '' = () => { ''
                        @ translateExpression e context @ ''; };''],
            defers @ [deferName])))
      stmts (res, defs)
   = (res @ blockLines stmts context lvl (length defs),
      defs @ map (\<lambda>j. ''defer_'' @ numberToString j)
               [length defs ..< length defs + deferCount stmts])"
proof (induction stmts arbitrary: res defs)
  case Nil
  show ?case by (simp add: deferCount_def)
next
  case (Cons s ss)
  show ?case
  proof (cases "isDefer s")
    case True
    then obtain e where s: "s = DeferStmt e" by (cases s) simp_all
    have "[length defs ..< length defs + Suc (deferCount ss)]
          = length defs # [Suc (length defs) ..< Suc (length defs) + deferCount ss]"
      by (simp add: upt_conv_Cons)
    then show ?thesis using s by (simp add: Cons.IH deferCount_def Let_def)
  next
    case False
    then show ?thesis by (cases s) (simp_all add: Cons.IH deferCount_def)
  qed
qed

text \<open>
  Claim C6. The lines generated for a block are the lines of its statements, in order,
  followed by one invocation \<open>defer_j();\<close> for every defer statement of the block, in
  the order \<open>j = 0, 1, ...\<close> in which the defer statements occur (the \<open>j\<close>-th defer
  statement is the one that declares \<open>defer_j\<close>, see \<open>statementLines\<close>). Every invocation
  thus stands after every other statement of the block, a \<open>return\<close> or \<open>break\<close> included, so
  that in the generated text it is reached only when the block runs to its end.
\<close>

theorem defers_invoked_after_statements_in_order:
  "translateBlock (Block stmts vars) context lvl =
     blockLines stmts context lvl 0
     @ map (\<lambda>j. indentOf lvl @ ''defer_'' @ numberToString j @ ''();'') [0 ..< deferCount stmts]"
  by (simp add: fold_statements Let_def comp_def)

theorem defers_invoked_after_statements_in_order_witness:
  "translateBlock
     (Block [DeferStmt (Variable ''a''), ReturnStmt (I32Lit ''1''), DeferStmt (Variable ''b'')] [])
     \<lparr>funcs = []\<rparr> 1
   = [''    const defer_0 = () => { a; };'', ''    return 1;'',
      ''    const defer_1 = () => { b; };'', ''    defer_0();'', ''    defer_1();'']"
proof -
  have u: "[0 ..< 2] = [0, Suc 0]" by (simp add: upt_conv_Cons)
  show ?thesis
    using defers_invoked_after_statements_in_order
      [of "[DeferStmt (Variable ''a''), ReturnStmt (I32Lit ''1''), DeferStmt (Variable ''b'')]"
          "[]" "\<lparr>funcs = []\<rparr>" 1]
    by (simp add: deferCount_def indentOf_values numberToString_values u)
qed

section \<open>Properties of the parser\<close>






lemma pop_after_peek:
  assumes "peek tks 1 = (t, tks1)" and "pop tks1 = (t', tks2)"
  shows "t' = t \<and> tokenAt (tokens tks2) (cursor tks2) = t'"
  using assms by (auto simp: peek_def pop_def Let_def split: if_splits)

lemma parseArrayLoop_exit:
  "parseArrayLoop pe n token items tks0 = Some (Inr (items', tks')) \<Longrightarrow>
     (items' = items \<and> tks' = tks0
        \<and> (\<exists>t. token = Some t \<and> (ttype t = T_EOF \<or> ttype t = T_RBracket)))
     \<or> (items' \<noteq> []
        \<and> (\<exists>t. tokenAt (tokens tks') (cursor tks') = Some t \<and> ttype t = T_RBracket))"
proof (induction n arbitrary: token items tks0)
  case 0
  then show ?case by simp
next
  case (Suc n)
  from Suc.prems obtain t where t: "token = Some t"
    by (cases token) (simp_all add: result_defs)
  show ?case
  proof (cases "ttype t \<noteq> T_EOF \<and> ttype t \<noteq> T_RBracket")
    case False
    with Suc.prems t show ?thesis by (simp add: result_defs)
  next
    case True
    with Suc.prems t have "\<exists>e tks1. pe tks0 = Some (Inr (e, tks1))"
      by (cases "pe tks0") (auto simp: result_defs split: sum.splits)
    then obtain e tks1 where pe: "pe tks0 = Some (Inr (e, tks1))" by blast
    obtain p tks2 where pk: "peek tks1 1 = (p, tks2)" by (cases "peek tks1 1")
    obtain q tks3 where pp: "pop tks2 = (q, tks3)" by (cases "pop tks2")
    from Suc.prems t True pe pk obtain pt where pt: "p = Some pt"
      by (cases p) (simp_all add: result_defs)
    from Suc.prems t True pe pk pt
    have sep: "ttype pt = T_Comma \<or> ttype pt = T_RBracket"
      by (simp add: result_defs split: if_splits)
    with Suc.prems t True pe pk pt pp
    have rec: "parseArrayLoop pe n q (items @ [e]) tks3 = Some (Inr (items', tks'))"
      by (auto simp: result_defs)
    from pop_after_peek [OF pk pp] pt
    have q: "q = Some pt" "tokenAt (tokens tks3) (cursor tks3) = Some pt" by simp_all
    from Suc.IH [OF rec] show ?thesis
    proof
      assume "items' = items @ [e] \<and> tks' = tks3
        \<and> (\<exists>t. q = Some t \<and> (ttype t = T_EOF \<or> ttype t = T_RBracket))"
      with q sep show ?thesis by auto
    next
      assume "items' \<noteq> []
        \<and> (\<exists>t. tokenAt (tokens tks') (cursor tks') = Some t \<and> ttype t = T_RBracket)"
      then show ?thesis by simp
    qed
  qed
qed

lemma parseArray_nonempty_consumes_bracket:
  assumes "parseArray pe n tks0 = Some (Inr ((ty, items), tks))" and "items \<noteq> []"
  shows "\<exists>t. tokenAt (tokens tks) (cursor tks) = Some t \<and> ttype t = T_RBracket"
proof -
  obtain a tks1 where a: "pop tks0 = (a, tks1)" by (cases "pop tks0")
  obtain b tks2 where b: "peek tks1 1 = (b, tks2)" by (cases "peek tks1 1")
  from assms(1) a b have "parseArrayLoop pe n b [] tks2 = Some (Inr (items, tks))"
    by (auto simp: parseArray_def result_defs split: option.splits sum.splits if_splits)
  from parseArrayLoop_exit [OF this] assms(2) show ?thesis by auto
qed

lemma parseArray_empty:
  "parseArray pe (Suc n)
     \<lparr>tokens = pre @ tok T_LBracket # tok T_RBracket # post, cursor = int (length pre) - 1\<rparr>
   = Some (Inr ((DT_I32, []),
       \<lparr>tokens = pre @ tok T_LBracket # tok T_RBracket # post, cursor = int (length pre)\<rparr>))"
proof -
  have i: "nat (int (length pre) + 1) = Suc (length pre)" by simp
  show ?thesis
    by (simp add: parseArray_def cursor_defs result_defs tok_def nth_append i)
qed

lemma pop_after_empty_array:
  "fst (pop \<lparr>tokens = pre @ tok T_LBracket # tok T_RBracket # post, cursor = int (length pre)\<rparr>)
   = Some (tok T_RBracket)"
proof -
  have i: "nat (int (length pre) + 1) = Suc (length pre)" by simp
  show ?thesis by (simp add: cursor_defs nth_append i)
qed

text \<open>
  Claim C10. The empty array literal leaves its \<open>]\<close> unconsumed (in general:
  \<open>parseArray_empty\<close>, \<open>pop_after_empty_array\<close>), and for an array literal with at
  least one element the closing \<open>]\<close> should be consumed. \<open>parseArray\<close> does return
  from a non-empty literal right after popping a \<open>]\<close>
  (\<open>parseArray_nonempty_consumes_bracket\<close>), as for \<open>[1, 2]\<close>, but the bracket it pops
  need not be its own: for \<open>[[]]\<close> it returns with the cursor on the first \<open>]\<close>
  (index 2), which the inner empty literal left behind, and the closing \<open>]\<close> of the
  literal itself (index 3) is the next token the cursor yields; for \<open>[[], 1]\<close> it
  returns the single item \<open>[]\<close> at the same place and never reads \<open>, 1]\<close>. The
  sibling \<open>parseFunctionCall\<close> does consume the \<open>)\<close> of an empty argument list.
  The bracket an empty literal leaves behind also breaks the statement after it: a
  declaration initialised with \<open>[]\<close> and followed by a call fails to parse, while
  the same text with \<open>[1]\<close> parses.
\<close>

theorem nested_empty_array_loses_bracket:
  "lexTokens ''[[]]''
     = [tok T_LBracket, tok T_LBracket, tok T_RBracket, tok T_RBracket, tok T_EOF]
   \<and> parseArray (parseExpression 9) 9 (lex ''[[]]'')
     = Some (Inr ((DT_I32, [Array DT_I32 []]), \<lparr>tokens = lexTokens ''[[]]'', cursor = 2\<rparr>))
   \<and> pop \<lparr>tokens = lexTokens ''[[]]'', cursor = 2\<rparr>
     = (Some (tok T_RBracket), \<lparr>tokens = lexTokens ''[[]]'', cursor = 3\<rparr>)
   \<and> lexTokens ''[[], 1]''
     = [tok T_LBracket, tok T_LBracket, tok T_RBracket, tok T_Comma, tokv T_Number ''1'',
        tok T_RBracket, tok T_EOF]
   \<and> parseArray (parseExpression 9) 9 (lex ''[[], 1]'')
     = Some (Inr ((DT_I32, [Array DT_I32 []]), \<lparr>tokens = lexTokens ''[[], 1]'', cursor = 2\<rparr>))
   \<and> parseArray (parseExpression 9) 9 (lex ''[1, 2]'')
     = Some (Inr ((DT_I32, [I32Lit ''1'', I32Lit ''2'']),
                  \<lparr>tokens = lexTokens ''[1, 2]'', cursor = 4\<rparr>))
   \<and> tokenAt (lexTokens ''[1, 2]'') 4 = Some (tok T_RBracket)
   \<and> parseArray (parseExpression 9) 9 (lex ''[]'')
     = Some (Inr ((DT_I32, []), \<lparr>tokens = lexTokens ''[]'', cursor = 0\<rparr>))
   \<and> pop \<lparr>tokens = lexTokens ''[]'', cursor = 0\<rparr>
     = (Some (tok T_RBracket), \<lparr>tokens = lexTokens ''[]'', cursor = 1\<rparr>)
   \<and> parseFunctionCall (parseExpression 9) 9 (lex ''f()'')
     = Some (Inr (FunctionCall ''f'' [], \<lparr>tokens = lexTokens ''f()'', cursor = 2\<rparr>))
   \<and> tokenAt (lexTokens ''f()'') 2 = Some (tok T_RParen)
   \<and> parse 30 (lex ''func main(): void { let a: i32[] = [] print(a) }'')
     = Some (Inl (Error (''Expected expression, got '' @ quoted ''lparen'')))
   \<and> map_option (map_sum id (map (statements \<circ> f_block) \<circ> funcs))
        (parse 30 (lex ''func main(): void { let a: i32[] = [1] print(a) }''))
     = Some (Inr [[VariableDeclStmt \<lparr>v_name = ''a'', v_type = DT_I32, v_isArray = True,
                                     v_value = Array DT_I32 [I32Lit ''1'']\<rparr>,
                   ExpressionStmt (FunctionCallExpr (FunctionCall ''print'' [Variable ''a'']))]])"
  by code_simp

lemma first_token_checks:
  assumes "fst (pop tks) = Some t"
  shows "ttype t \<noteq> T_LBrace \<Longrightarrow>
           parseBlock (Suc n) tks = throw (expectedGot (quoted ''{'') (ttype t))"
    and "ttype t \<noteq> T_Colon \<Longrightarrow> parseType tks = throw (expectedGot (quoted '':'') (ttype t))"
    and "ttype t \<noteq> T_Identifier \<Longrightarrow>
           parseFunctionParameter tks = throw (expectedGot ''parameter name'' (ttype t))"
    and "ttype t \<noteq> T_Identifier \<Longrightarrow>
           parseFunctionCall pe n tks = throw (expectedGot ''function name'' (ttype t))"
    and "ttype t \<noteq> T_Identifier \<Longrightarrow> ttype t \<noteq> T_EOF \<Longrightarrow>
           parseFunction n tks = throw (expectedGot ''function name'' (ttype t))"
    and "ttype t = T_EOF \<Longrightarrow> parseFunction n tks = throw ''Unexpected end of file''"
    and "ttype t \<noteq> T_Let \<Longrightarrow>
           parseVariableDecl n tks = throw (expectedGot (quoted ''let'') (ttype t))"
    and "ttype t \<noteq> T_If \<Longrightarrow>
           parseIfStatement pb n tks = throw (expectedGot (quoted ''if'') (ttype t))"
    and "ttype t \<noteq> T_For \<Longrightarrow>
           parseForStatement pb n tks = throw (expectedGot (quoted ''for'') (ttype t))"
    and "parseMatchStatement pb n tks = throw (expectedGot (quoted ''match'') (ttype t))"
    and "ttype t \<noteq> T_LBracket \<Longrightarrow>
           parseArray pe n tks = throw (expectedGot (quoted ''['') (ttype t))"
  using assms
  by (cases "pop tks";
      simp add: parseBlockBody_def parseType_def parseFunctionParameter_def
        parseFunctionCall_def parseFunction_def parseVariableDecl_def parseIfStatement_def
        parseForStatement_def parseMatchStatement_def parseArray_def TokenType_Match_def
        result_defs msg_defs)+

lemma operand_check:
  assumes "fst (peek tks 1) = Some t" and "\<not> startsOperand (ttype t)"
  shows "parseOperand pe n tks = throw (expectedGot ''expression'' (ttype t))"
    and "parseExpression (Suc n) tks = throw (expectedGot ''expression'' (ttype t))"
  using assms
  by (cases "peek tks 1";
      simp add: parseExpressionBody_def parseOperand_def result_defs msg_defs
        startsOperand_def)+

lemma second_token_checks:
  assumes "fst (pop tks) = Some a" and "fst (pop (snd (pop tks))) = Some t"
  shows "ttype a = T_Colon \<Longrightarrow> ttype t \<noteq> T_Type \<Longrightarrow>
           parseType tks = throw (expectedGot ''data type'' (ttype t))"
    and "ttype a = T_Identifier \<Longrightarrow> ttype t \<noteq> T_LParen \<Longrightarrow>
           parseFunction n tks = throw (expectedGot (quoted ''('') (ttype t))"
    and "ttype a = T_Identifier \<Longrightarrow> ttype t \<noteq> T_LParen \<Longrightarrow>
           parseFunctionCall pe n tks = throw (expectedGotPlain (quoted ''('') (ttype t))"
    and "ttype a = T_Let \<Longrightarrow> ttype t \<noteq> T_Identifier \<Longrightarrow>
           parseVariableDecl n tks = throw (expectedGot ''variable name'' (ttype t))"
  using assms
  by (cases "pop tks"; cases "pop (snd (pop tks))";
      simp add: parseType_def parseFunctionCall_def parseFunction_def parseVariableDecl_def
        result_defs msg_defs)+

lemma variable_decl_checks:
  assumes "pop tks = (Some a, tksA)" and "ttype a = T_Let"
    and "pop tksA = (Some b, tksB)" and "ttype b = T_Identifier"
    and "parseType tksB = Some (Inr (ty, tksC))" and "peek tksC 1 = (Some c, tksD)"
  shows "ttype c \<noteq> T_LBracket \<Longrightarrow> fst (pop tksD) = Some t \<Longrightarrow> ttype t \<noteq> T_Assign \<Longrightarrow>
           parseVariableDecl n tks = throw (expectedGot (quoted ''='') (ttype t))"
    and "ttype c = T_LBracket \<Longrightarrow> fst (pop (snd (pop tksD))) = Some t \<Longrightarrow>
         ttype t \<noteq> T_RBracket \<Longrightarrow>
           parseVariableDecl n tks = throw (expectedGotPlain (quoted ''[]'') (ttype t))"
    and "ttype c = T_LBracket \<Longrightarrow> fst (pop (snd (pop tksD))) = Some d \<Longrightarrow>
         ttype d = T_RBracket \<Longrightarrow> fst (pop (snd (pop (snd (pop tksD))))) = Some t \<Longrightarrow>
         ttype t \<noteq> T_Assign \<Longrightarrow>
           parseVariableDecl n tks = throw (expectedGot (quoted ''='') (ttype t))"
  using assms
  by (simp_all add: parseVariableDecl_def result_defs msg_defs split_beta)

lemma block_closing_check:
  assumes "fst (pop tks) = Some a" and "ttype a = T_LBrace"
    and "parseBlockLoop (parseBlock n) n (fst (peek (snd (pop tks)) 1)) [] []
           (snd (peek (snd (pop tks)) 1)) = Some (Inr (t, stmts, vars, tksE))"
    and "ttype t \<noteq> T_RBrace"
  shows "parseBlock (Suc n) tks = throw (expectedGot (quoted ''}'') (ttype t))"
  using assms
  by (simp add: parseBlockBody_def result_defs msg_defs split_beta)

lemma function_closing_check:
  assumes "fst (pop tks) = Some a" and "ttype a = T_Identifier"
    and "fst (pop (snd (pop tks))) = Some b" and "ttype b = T_LParen"
    and "peek (snd (pop (snd (pop tks)))) 1 = (Some p, tksC)"
    and "(if ttype p = T_RParen then pop tksC else (Some p, tksC)) = (entry, tksD)"
    and "parseFunctionParamsLoop n entry [] tksD = Some (Inr (t, params, tksE))"
    and "ttype t \<noteq> T_RParen"
  shows "parseFunction n tks = throw (expectedGot (quoted '')'') (ttype t))"
  using assms
  by (auto simp: parseFunction_def result_defs msg_defs split_beta split: if_splits)

lemma call_closing_check:
  assumes "fst (pop tks) = Some a" and "ttype a = T_Identifier"
    and "fst (pop (snd (pop tks))) = Some b" and "ttype b = T_LParen"
    and "peek (snd (pop (snd (pop tks)))) 1 = (Some p, tksC)"
    and "(if ttype p = T_RParen then pop tksC else (Some p, tksC)) = (entry, tksD)"
    and "parseFunctionCallLoop pe n entry [] tksD = Some (Inr (t, argus, tksE))"
    and "ttype t \<noteq> T_RParen"
  shows "parseFunctionCall pe n tks = throw (expectedGot (quoted '')'') (ttype t))"
  using assms
  by (auto simp: parseFunctionCall_def result_defs msg_defs split_beta split: if_splits)

lemma array_separator_check:
  assumes "ttype a \<noteq> T_EOF" and "ttype a \<noteq> T_RBracket" and "pe tks = Some (Inr (e, tksA))"
    and "fst (peek tksA 1) = Some t" and "ttype t \<noteq> T_Comma" and "ttype t \<noteq> T_RBracket"
  shows "parseArrayLoop pe (Suc n) (Some a) items tks
           = throw (expectedGot (quoted '','') (ttype t))"
  using assms
  by (simp add: result_defs msg_defs split_beta)

lemma pop_in_range:
  "i + 1 < length ts \<Longrightarrow>
     pop \<lparr>tokens = ts, cursor = int i\<rparr> = (Some (ts ! (i + 1)), \<lparr>tokens = ts, cursor = int (i + 1)\<rparr>)"
  by (simp add: pop_def tokenAt_def Let_def nat_add_distrib)

lemma parseLoop_skips_to_end:
  assumes eof: "ttype (last ts) = T_EOF" and nofunc: "\<forall>t\<in>set ts. ttype t \<noteq> T_Func"
  shows "i < length ts \<Longrightarrow> length ts - i \<le> n \<Longrightarrow>
         parseLoop n (Some (ts ! i)) fs \<lparr>tokens = ts, cursor = int i\<rparr> = ok \<lparr>funcs = fs\<rparr>"
proof (induction n arbitrary: i)
  case 0
  then show ?case by simp
next
  case (Suc n)
  show ?case
  proof (cases "ttype (ts ! i) = T_EOF")
    case True
    then show ?thesis by (simp add: result_defs)
  next
    case False
    from Suc.prems have ne: "ts \<noteq> []" by auto
    have "i \<noteq> length ts - 1"
    proof
      assume "i = length ts - 1"
      with ne have "ts ! i = last ts" by (simp add: last_conv_nth)
      with eof False show False by simp
    qed
    with Suc.prems have lt: "i + 1 < length ts" by simp
    from Suc.prems nofunc have nf: "ttype (ts ! i) \<noteq> T_Func" by simp
    from lt Suc.prems have "length ts - (i + 1) \<le> n" by simp
    from Suc.IH [OF lt this]
    have "parseLoop n (Some (ts ! (i + 1))) fs \<lparr>tokens = ts, cursor = int (i + 1)\<rparr>
            = ok \<lparr>funcs = fs\<rparr>" .
    with False nf show ?thesis
      by (simp add: result_defs pop_in_range [OF lt])
  qed
qed

lemma no_func_parses_to_empty_program:
  assumes "ts \<noteq> []" and "ttype (last ts) = T_EOF" and "\<forall>t\<in>set ts. ttype t \<noteq> T_Func"
  shows "parse (length ts + m) (TokenList_new ts) = ok \<lparr>funcs = []\<rparr>"
proof -
  from assms(1) have p: "pop (TokenList_new ts) = (Some (ts ! 0), \<lparr>tokens = ts, cursor = int 0\<rparr>)"
    by (simp add: pop_def TokenList_new_def tokenAt_def Let_def)
  from assms(1) have "0 < length ts" by simp
  from parseLoop_skips_to_end [OF assms(2,3) this, of "length ts + m" "[]"] p
  show ?thesis by (simp add: parse_def)
qed

lemma statement_search_skips:
  "i + k < length ts \<Longrightarrow>
   (\<forall>j. i \<le> j \<and> j < i + k \<longrightarrow> \<not> startsStatement (ttype (ts ! j)) \<and> ttype (ts ! j) \<noteq> T_EOF) \<Longrightarrow>
   parseStatementLoop pb (k + n) (Some (ts ! i)) \<lparr>tokens = ts, cursor = int i\<rparr>
     = parseStatementLoop pb n (Some (ts ! (i + k))) \<lparr>tokens = ts, cursor = int (i + k)\<rparr>"
proof (induction k arbitrary: i)
  case 0
  then show ?case by simp
next
  case (Suc k)
  from Suc.prems have lt: "i + 1 < length ts" by simp
  from Suc.prems have here: "\<not> startsStatement (ttype (ts ! i))" "ttype (ts ! i) \<noteq> T_EOF"
    by simp_all
  from Suc.prems have a: "(i + 1) + k < length ts" by simp
  from Suc.prems have b: "\<forall>j. i + 1 \<le> j \<and> j < (i + 1) + k \<longrightarrow>
      \<not> startsStatement (ttype (ts ! j)) \<and> ttype (ts ! j) \<noteq> T_EOF" by simp
  from Suc.IH [OF a b]
  have ih: "parseStatementLoop pb (k + n) (Some (ts ! (i + 1))) \<lparr>tokens = ts, cursor = int (i + 1)\<rparr>
     = parseStatementLoop pb n (Some (ts ! (i + Suc k))) \<lparr>tokens = ts, cursor = int (i + Suc k)\<rparr>"
    by simp
  have "parseStatementLoop pb (Suc k + n) (Some (ts ! i)) \<lparr>tokens = ts, cursor = int i\<rparr>
     = parseStatementLoop pb (k + n) (Some (ts ! (i + 1))) \<lparr>tokens = ts, cursor = int (i + 1)\<rparr>"
    using here
    by (simp add: result_defs startsStatement_def TokenType_Match_def pop_in_range [OF lt])
  with ih show ?case by simp
qed

lemma parse_failures:
  "parse m tokenList = Some (Inl e) \<Longrightarrow>
     e = TypeError
     \<or> (\<exists>msg. e = Error msg
          \<and> (namesKinds msg \<or> msg = ''Incomplete statement'' \<or> msg = ''Unexpected end of file''))"
  using parse_named [of m tokenList] by (cases e) (auto simp: errorsNamed_def)

lemma parse_type_error_example:
  "parse 30 (lex ''func main(): void { ) break'') = Some (Inl TypeError)"
  by code_simp

lemma incomplete_statement:
  "ttype t = T_EOF \<Longrightarrow>
     parseStatementLoop pb (Suc n) (Some t) tks = throw ''Incomplete statement''"
  by (simp add: result_defs)

lemma error_aborts_parse:
  "ttype a = T_Func \<Longrightarrow> parseFunction n tks = Some (Inl e) \<Longrightarrow>
     parseLoop (Suc n) (Some a) fs tks = Some (Inl e)"
  by (simp add: result_defs)

text \<open>
  Claim C3, as amended. Every check of a token against an expected kind throws, when
  the token it inspects fails it, at once the error \<open>Expected X, got kind\<close> with the
  kind of that token. The conjuncts cover every such check of the source, in this
  order: the first token of a block, a type annotation, a parameter, a call, a
  function (\<open>Unexpected end of file\<close> on the end-of-stream token), a \<open>let\<close>, an
  \<open>if\<close>, a \<open>for\<close>, a \<open>match\<close> (which every token fails, since no token has that
  kind, so that the two later checks of \<open>parseMatchStatement\<close> are never reached) and an
  array literal; the first token of an operand; the second token of a type annotation,
  of a function or call and of a \<open>let\<close>; the \<open>=\<close> and the \<open>[]\<close> of a \<open>let\<close>; the
  \<open>}\<close> that closes a block; the \<open>)\<close> that closes a parameter list and an argument
  list; the separator after an array element. (At the \<open>(\<close> of a call and the
  \<open>[]\<close> of a \<open>let\<close> the message carries the kind without quotes:
  \<open>expectedGotPlain\<close>.) The search for a statement throws
  \<open>Incomplete statement\<close> on the end-of-stream token. An error thrown while a function
  is parsed is the result of the whole parse, whatever functions were parsed before.

  A mismatch need not raise an error, though. A token sequence that ends in the
  end-of-stream token and holds no \<open>func\<close> token parses to the empty program, whatever
  its other tokens are; and where a statement is looked for, a run of \<open>k\<close> tokens that
  start no statement is skipped: the search goes on at the token after the run.

  Whenever \<open>parse\<close> fails, with any fuel, it fails either with the host language's
  \<open>TypeError\<close> (a token was read beyond the array, as in
  \<open>parse_type_error_example\<close>) or with an \<open>Error\<close> whose message names an expected and
  an actual kind or is \<open>Incomplete statement\<close> or \<open>Unexpected end of file\<close>.
\<close>

theorem mismatch_handling:
  "(fst (pop tks) = Some t \<longrightarrow>
      (ttype t \<noteq> T_LBrace \<longrightarrow>
         parseBlock (Suc n) tks = throw (expectedGot (quoted ''{'') (ttype t)))
    \<and> (ttype t \<noteq> T_Colon \<longrightarrow> parseType tks = throw (expectedGot (quoted '':'') (ttype t)))
    \<and> (ttype t \<noteq> T_Identifier \<longrightarrow>
         parseFunctionParameter tks = throw (expectedGot ''parameter name'' (ttype t)))
    \<and> (ttype t \<noteq> T_Identifier \<longrightarrow>
         parseFunctionCall pe n tks = throw (expectedGot ''function name'' (ttype t)))
    \<and> (ttype t \<noteq> T_Identifier \<and> ttype t \<noteq> T_EOF \<longrightarrow>
         parseFunction n tks = throw (expectedGot ''function name'' (ttype t)))
    \<and> (ttype t = T_EOF \<longrightarrow> parseFunction n tks = throw ''Unexpected end of file'')
    \<and> (ttype t \<noteq> T_Let \<longrightarrow>
         parseVariableDecl n tks = throw (expectedGot (quoted ''let'') (ttype t)))
    \<and> (ttype t \<noteq> T_If \<longrightarrow>
         parseIfStatement pb n tks = throw (expectedGot (quoted ''if'') (ttype t)))
    \<and> (ttype t \<noteq> T_For \<longrightarrow>
         parseForStatement pb n tks = throw (expectedGot (quoted ''for'') (ttype t)))
    \<and> parseMatchStatement pb n tks = throw (expectedGot (quoted ''match'') (ttype t))
    \<and> (ttype t \<noteq> T_LBracket \<longrightarrow>
         parseArray pe n tks = throw (expectedGot (quoted ''['') (ttype t))))
   \<and> (fst (peek tks 1) = Some t \<and> \<not> startsOperand (ttype t) \<longrightarrow>
         parseOperand pe n tks = throw (expectedGot ''expression'' (ttype t))
       \<and> parseExpression (Suc n) tks = throw (expectedGot ''expression'' (ttype t)))
   \<and> (fst (pop tks) = Some a \<and> fst (pop (snd (pop tks))) = Some t \<longrightarrow>
      (ttype a = T_Colon \<and> ttype t \<noteq> T_Type \<longrightarrow>
         parseType tks = throw (expectedGot ''data type'' (ttype t)))
    \<and> (ttype a = T_Identifier \<and> ttype t \<noteq> T_LParen \<longrightarrow>
         parseFunction n tks = throw (expectedGot (quoted ''('') (ttype t))
         \<and> parseFunctionCall pe n tks = throw (expectedGotPlain (quoted ''('') (ttype t)))
    \<and> (ttype a = T_Let \<and> ttype t \<noteq> T_Identifier \<longrightarrow>
         parseVariableDecl n tks = throw (expectedGot ''variable name'' (ttype t))))
   \<and> (pop tks = (Some a, tksA) \<and> ttype a = T_Let \<and> pop tksA = (Some b, tksB)
       \<and> ttype b = T_Identifier \<and> parseType tksB = Some (Inr (ty, tksC))
       \<and> peek tksC 1 = (Some c, tksD) \<longrightarrow>
      (ttype c \<noteq> T_LBracket \<and> fst (pop tksD) = Some t \<and> ttype t \<noteq> T_Assign \<longrightarrow>
         parseVariableDecl n tks = throw (expectedGot (quoted ''='') (ttype t)))
    \<and> (ttype c = T_LBracket \<and> fst (pop (snd (pop tksD))) = Some t \<and> ttype t \<noteq> T_RBracket \<longrightarrow>
         parseVariableDecl n tks = throw (expectedGotPlain (quoted ''[]'') (ttype t)))
    \<and> (ttype c = T_LBracket \<and> fst (pop (snd (pop tksD))) = Some d \<and> ttype d = T_RBracket
        \<and> fst (pop (snd (pop (snd (pop tksD))))) = Some t \<and> ttype t \<noteq> T_Assign \<longrightarrow>
         parseVariableDecl n tks = throw (expectedGot (quoted ''='') (ttype t))))
   \<and> (fst (pop tks) = Some a \<and> ttype a = T_LBrace
       \<and> parseBlockLoop (parseBlock n) n (fst (peek (snd (pop tks)) 1)) [] []
            (snd (peek (snd (pop tks)) 1)) = Some (Inr (t, stmts, vars, tksE))
       \<and> ttype t \<noteq> T_RBrace \<longrightarrow>
         parseBlock (Suc n) tks = throw (expectedGot (quoted ''}'') (ttype t)))
   \<and> (fst (pop tks) = Some a \<and> ttype a = T_Identifier
       \<and> fst (pop (snd (pop tks))) = Some b \<and> ttype b = T_LParen
       \<and> peek (snd (pop (snd (pop tks)))) 1 = (Some p, tksC)
       \<and> (if ttype p = T_RParen then pop tksC else (Some p, tksC)) = (entry, tksD) \<longrightarrow>
      (parseFunctionParamsLoop n entry [] tksD = Some (Inr (t, params, tksE))
        \<and> ttype t \<noteq> T_RParen \<longrightarrow>
         parseFunction n tks = throw (expectedGot (quoted '')'') (ttype t)))
    \<and> (parseFunctionCallLoop pe n entry [] tksD = Some (Inr (t, argus, tksE))
        \<and> ttype t \<noteq> T_RParen \<longrightarrow>
         parseFunctionCall pe n tks = throw (expectedGot (quoted '')'') (ttype t))))
   \<and> (ttype a \<noteq> T_EOF \<and> ttype a \<noteq> T_RBracket \<and> pe tks = Some (Inr (x, tksA))
       \<and> fst (peek tksA 1) = Some t \<and> ttype t \<noteq> T_Comma \<and> ttype t \<noteq> T_RBracket \<longrightarrow>
         parseArrayLoop pe (Suc n) (Some a) items tks
           = throw (expectedGot (quoted '','') (ttype t)))
   \<and> (ttype t = T_EOF \<longrightarrow>
         parseStatementLoop pb (Suc n) (Some t) tks = throw ''Incomplete statement'')
   \<and> (ttype a = T_Func \<and> parseFunction n tks = Some (Inl e) \<longrightarrow>
         parseLoop (Suc n) (Some a) fs tks = Some (Inl e))
   \<and> (ts \<noteq> [] \<and> ttype (last ts) = T_EOF \<and> (\<forall>x\<in>set ts. ttype x \<noteq> T_Func) \<longrightarrow>
         parse (length ts + m) (TokenList_new ts) = ok \<lparr>funcs = []\<rparr>)
   \<and> (i + k < length ts
       \<and> (\<forall>j. i \<le> j \<and> j < i + k \<longrightarrow>
             \<not> startsStatement (ttype (ts ! j)) \<and> ttype (ts ! j) \<noteq> T_EOF) \<longrightarrow>
         parseStatementLoop pb (k + n) (Some (ts ! i)) \<lparr>tokens = ts, cursor = int i\<rparr>
           = parseStatementLoop pb n (Some (ts ! (i + k)))
               \<lparr>tokens = ts, cursor = int (i + k)\<rparr>)
   \<and> (parse m tokenList = Some (Inl e) \<longrightarrow>
         e = TypeError
         \<or> (\<exists>msg. e = Error msg
              \<and> (namesKinds msg \<or> msg = ''Incomplete statement''
                  \<or> msg = ''Unexpected end of file'')))"
  by (intro conjI impI; (elim conjE)?;
      (rule first_token_checks operand_check second_token_checks variable_decl_checks
         block_closing_check function_closing_check call_closing_check array_separator_check
         incomplete_statement error_aborts_parse
         no_func_parses_to_empty_program statement_search_skips parse_failures; assumption))

theorem mismatch_handling_witness:
  "(fst (pop (lex '')'')) = Some (tok T_RParen)
   \<and> parseBlock 4 (lex '')'') = throw (expectedGot (quoted ''{'') T_RParen)
   \<and> parseType (lex '')'') = throw (expectedGot (quoted '':'') T_RParen)
   \<and> parseFunctionParameter (lex '')'') = throw (expectedGot ''parameter name'' T_RParen)
   \<and> parseFunctionCall (parseExpression 3) 3 (lex '')'')
       = throw (expectedGot ''function name'' T_RParen)
   \<and> parseFunction 3 (lex '')'') = throw (expectedGot ''function name'' T_RParen)
   \<and> parseVariableDecl 3 (lex '')'') = throw (expectedGot (quoted ''let'') T_RParen)
   \<and> parseIfStatement (parseBlock 3) 3 (lex '')'') = throw (expectedGot (quoted ''if'') T_RParen)
   \<and> parseForStatement (parseBlock 3) 3 (lex '')'')
       = throw (expectedGot (quoted ''for'') T_RParen)
   \<and> parseMatchStatement (parseBlock 3) 3 (lex '')'')
       = throw (expectedGot (quoted ''match'') T_RParen)
   \<and> parseArray (parseExpression 3) 3 (lex '')'') = throw (expectedGot (quoted ''['') T_RParen))
   \<and> (fst (pop (lex [])) = Some (tok T_EOF)
   \<and> parseFunction 3 (lex []) = throw ''Unexpected end of file'')
   \<and> (fst (peek (lex '')'') 1) = Some (tok T_RParen) \<and> \<not> startsOperand T_RParen
   \<and> parseOperand (parseExpression 3) 3 (lex '')'') = throw (expectedGot ''expression'' T_RParen)
   \<and> parseExpression 4 (lex '')'') = throw (expectedGot ''expression'' T_RParen))
   \<and> (fst (pop (lex '': )'')) = Some (tok T_Colon)
   \<and> fst (pop (snd (pop (lex '': )'')))) = Some (tok T_RParen)
   \<and> parseType (lex '': )'') = throw (expectedGot ''data type'' T_RParen))
   \<and> (fst (pop (lex ''f )'')) = Some (tokv T_Identifier ''f'')
   \<and> fst (pop (snd (pop (lex ''f )'')))) = Some (tok T_RParen)
   \<and> parseFunction 3 (lex ''f )'') = throw (expectedGot (quoted ''('') T_RParen)
   \<and> parseFunctionCall (parseExpression 3) 3 (lex ''f )'')
       = throw (expectedGotPlain (quoted ''('') T_RParen))
   \<and> (fst (pop (lex ''let )'')) = Some (tok T_Let)
   \<and> fst (pop (snd (pop (lex ''let )'')))) = Some (tok T_RParen)
   \<and> parseVariableDecl 3 (lex ''let )'') = throw (expectedGot ''variable name'' T_RParen))
   \<and> (pop (lex ''let x: i32 )'') = (Some (tok T_Let), \<lparr>tokens = lexTokens ''let x: i32 )'', cursor = 0\<rparr>)
   \<and> pop \<lparr>tokens = lexTokens ''let x: i32 )'', cursor = 0\<rparr> = (Some (tokv T_Identifier ''x''), \<lparr>tokens = lexTokens ''let x: i32 )'', cursor = 1\<rparr>)
   \<and> parseType \<lparr>tokens = lexTokens ''let x: i32 )'', cursor = 1\<rparr> = Some (Inr (DT_I32, \<lparr>tokens = lexTokens ''let x: i32 )'', cursor = 3\<rparr>))
   \<and> peek \<lparr>tokens = lexTokens ''let x: i32 )'', cursor = 3\<rparr> 1 = (Some (tok T_RParen), \<lparr>tokens = lexTokens ''let x: i32 )'', cursor = 3\<rparr>)
   \<and> fst (pop \<lparr>tokens = lexTokens ''let x: i32 )'', cursor = 3\<rparr>) = Some (tok T_RParen)
   \<and> parseVariableDecl 3 (lex ''let x: i32 )'') = throw (expectedGot (quoted ''='') T_RParen))
   \<and> (pop (lex ''let x: i32[ )'') = (Some (tok T_Let), \<lparr>tokens = lexTokens ''let x: i32[ )'', cursor = 0\<rparr>)
   \<and> pop \<lparr>tokens = lexTokens ''let x: i32[ )'', cursor = 0\<rparr> = (Some (tokv T_Identifier ''x''), \<lparr>tokens = lexTokens ''let x: i32[ )'', cursor = 1\<rparr>)
   \<and> parseType \<lparr>tokens = lexTokens ''let x: i32[ )'', cursor = 1\<rparr> = Some (Inr (DT_I32, \<lparr>tokens = lexTokens ''let x: i32[ )'', cursor = 3\<rparr>))
   \<and> peek \<lparr>tokens = lexTokens ''let x: i32[ )'', cursor = 3\<rparr> 1 = (Some (tok T_LBracket), \<lparr>tokens = lexTokens ''let x: i32[ )'', cursor = 3\<rparr>)
   \<and> fst (pop (snd (pop \<lparr>tokens = lexTokens ''let x: i32[ )'', cursor = 3\<rparr>))) = Some (tok T_RParen)
   \<and> parseVariableDecl 3 (lex ''let x: i32[ )'') = throw (expectedGotPlain (quoted ''[]'') T_RParen))
   \<and> (pop (lex ''let x: i32[] )'') = (Some (tok T_Let), \<lparr>tokens = lexTokens ''let x: i32[] )'', cursor = 0\<rparr>)
   \<and> pop \<lparr>tokens = lexTokens ''let x: i32[] )'', cursor = 0\<rparr> = (Some (tokv T_Identifier ''x''), \<lparr>tokens = lexTokens ''let x: i32[] )'', cursor = 1\<rparr>)
   \<and> parseType \<lparr>tokens = lexTokens ''let x: i32[] )'', cursor = 1\<rparr> = Some (Inr (DT_I32, \<lparr>tokens = lexTokens ''let x: i32[] )'', cursor = 3\<rparr>))
   \<and> peek \<lparr>tokens = lexTokens ''let x: i32[] )'', cursor = 3\<rparr> 1 = (Some (tok T_LBracket), \<lparr>tokens = lexTokens ''let x: i32[] )'', cursor = 3\<rparr>)
   \<and> fst (pop (snd (pop \<lparr>tokens = lexTokens ''let x: i32[] )'', cursor = 3\<rparr>))) = Some (tok T_RBracket)
   \<and> fst (pop (snd (pop (snd (pop \<lparr>tokens = lexTokens ''let x: i32[] )'', cursor = 3\<rparr>))))) = Some (tok T_RParen)
   \<and> parseVariableDecl 3 (lex ''let x: i32[] )'') = throw (expectedGot (quoted ''='') T_RParen))
   \<and> (fst (pop (lex ''{ x'')) = Some (tok T_LBrace)
   \<and> parseBlockLoop (parseBlock 3) 3 (fst (peek (snd (pop (lex ''{ x''))) 1)) [] []
         (snd (peek (snd (pop (lex ''{ x''))) 1))
       = Some (Inr (tok T_EOF, [ExpressionStmt (Variable ''x'')], [], \<lparr>tokens = lexTokens ''{ x'', cursor = 1\<rparr>))
   \<and> parseBlock 4 (lex ''{ x'') = throw (expectedGot (quoted ''}'') T_EOF))
   \<and> (peek (snd (pop (snd (pop (lex ''f(a: i32 b''))))) 1 = (Some (tokv T_Identifier ''a''), \<lparr>tokens = lexTokens ''f(a: i32 b'', cursor = 1\<rparr>)
   \<and> parseFunctionParamsLoop 3 (Some (tokv T_Identifier ''a'')) [] \<lparr>tokens = lexTokens ''f(a: i32 b'', cursor = 1\<rparr>
       = Some (Inr (tokv T_Identifier ''b'', [\<lparr>p_name = ''a'', p_type = DT_I32\<rparr>], \<lparr>tokens = lexTokens ''f(a: i32 b'', cursor = 5\<rparr>))
   \<and> parseFunction 3 (lex ''f(a: i32 b'') = throw (expectedGot (quoted '')'') T_Identifier))
   \<and> (peek (snd (pop (snd (pop (lex ''f(a''))))) 1 = (Some (tokv T_Identifier ''a''), \<lparr>tokens = lexTokens ''f(a'', cursor = 1\<rparr>)
   \<and> parseFunctionCallLoop (parseExpression 3) 3 (Some (tokv T_Identifier ''a'')) [] \<lparr>tokens = lexTokens ''f(a'', cursor = 1\<rparr>
       = Some (Inr (tok T_EOF, [Variable ''a''], \<lparr>tokens = lexTokens ''f(a'', cursor = 3\<rparr>))
   \<and> parseFunctionCall (parseExpression 3) 3 (lex ''f(a'')
       = throw (expectedGot (quoted '')'') T_EOF))
   \<and> (parseExpression 3 \<lparr>tokens = lexTokens ''[1 2]'', cursor = 0\<rparr> = Some (Inr (I32Lit ''1'', \<lparr>tokens = lexTokens ''[1 2]'', cursor = 1\<rparr>))
   \<and> fst (peek \<lparr>tokens = lexTokens ''[1 2]'', cursor = 1\<rparr> 1) = Some (tokv T_Number ''2'')
   \<and> parseArrayLoop (parseExpression 3) 4 (Some (tokv T_Number ''1'')) [] \<lparr>tokens = lexTokens ''[1 2]'', cursor = 0\<rparr>
       = throw (expectedGot (quoted '','') T_Number)
   \<and> parseArray (parseExpression 3) 4 (lex ''[1 2]'') = throw (expectedGot (quoted '','') T_Number))
   \<and> (parseStatementLoop (parseBlock 3) 4 (Some (tok T_EOF)) (lex []) = throw ''Incomplete statement'')
   \<and> (parseFunction 3 (lex '')'') = Some (Inl (Error (expectedGot ''function name'' T_RParen)))
   \<and> parseLoop 4 (Some (tok T_Func))
         [\<lparr>f_name = ''g'', f_params = [], f_block = Block [] [], f_returns = DT_Void\<rparr>] (lex '')'')
       = Some (Inl (Error (expectedGot ''function name'' T_RParen))))
   \<and> (lexTokens '') ) : 7'' = [tok T_RParen, tok T_RParen, tok T_Colon, tokv T_Number ''7'', tok T_EOF]
   \<and> parse 5 (lex '') ) : 7'') = ok \<lparr>funcs = []\<rparr>)
   \<and> (lexTokens '') ] x'' = [tok T_RParen, tok T_RBracket, tokv T_Identifier ''x'', tok T_EOF]
   \<and> parseStatementLoop (parseBlock 3) 5 (Some (tok T_RParen)) \<lparr>tokens = lexTokens '') ] x'', cursor = 0\<rparr>
       = parseStatementLoop (parseBlock 3) 3 (Some (tokv T_Identifier ''x'')) \<lparr>tokens = lexTokens '') ] x'', cursor = 2\<rparr>)
   \<and> (parse 30 (lex ''func f'') = Some (Inl (Error (expectedGot (quoted ''('') T_EOF)))
   \<and> (Error (expectedGot (quoted ''('') T_EOF) = TypeError
        \<or> (\<exists>msg. Error (expectedGot (quoted ''('') T_EOF) = Error msg
             \<and> (namesKinds msg \<or> msg = ''Incomplete statement''
                 \<or> msg = ''Unexpected end of file''))))"
  (is "?first \<and> ?eof \<and> ?operand \<and> ?typeName \<and> ?lparen \<and> ?varname \<and> ?assign \<and> ?brackets \<and> ?assignArr \<and> ?rbrace \<and> ?rparenFunction \<and> ?rparenCall \<and> ?comma \<and> ?incomplete \<and> ?abort \<and> ?nofunc \<and> ?skip \<and> ?failure")
proof -
  have h_first:
    "fst (pop (lex '')'')) = Some (tok T_RParen)"
    by code_simp+
  have w_first: ?first
    using h_first
      mismatch_handling
        [where tks = "lex '')''"
         and t = "tok T_RParen"
         and n = "3"
         and pe = "parseExpression 3"
         and pb = "parseBlock 3",
         THEN conjunct1]
    by (simp add: tok_def tokv_def)
  have h_eof:
    "fst (pop (lex [])) = Some (tok T_EOF)"
    by code_simp+
  have w_eof: ?eof
    using h_eof
      mismatch_handling
        [where tks = "lex []"
         and t = "tok T_EOF"
         and n = "3"
         and pe = "parseExpression 3"
         and pb = "parseBlock 3",
         THEN conjunct1]
    by (simp add: tok_def tokv_def)
  have h_operand:
    "fst (peek (lex '')'') 1) = Some (tok T_RParen)"
    by code_simp+
  have w_operand: ?operand
    using h_operand
      mismatch_handling
        [where tks = "lex '')''"
         and t = "tok T_RParen"
         and n = "3"
         and pe = "parseExpression 3",
         THEN conjunct2, THEN conjunct1]
    by (simp add: tok_def tokv_def startsOperand_def)
  have h_datatype:
    "fst (pop (lex '': )'')) = Some (tok T_Colon)"
    "fst (pop (snd (pop (lex '': )'')))) = Some (tok T_RParen)"
    by code_simp+
  have w_datatype: ?typeName
    using h_datatype
      mismatch_handling
        [where tks = "lex '': )''"
         and a = "tok T_Colon"
         and t = "tok T_RParen"
         and n = "3"
         and pe = "parseExpression 3",
         THEN conjunct2, THEN conjunct2, THEN conjunct1]
    by (simp add: tok_def tokv_def)
  have h_lparen:
    "fst (pop (lex ''f )'')) = Some (tokv T_Identifier ''f'')"
    "fst (pop (snd (pop (lex ''f )'')))) = Some (tok T_RParen)"
    by code_simp+
  have w_lparen: ?lparen
    using h_lparen
      mismatch_handling
        [where tks = "lex ''f )''"
         and a = "tokv T_Identifier ''f''"
         and t = "tok T_RParen"
         and n = "3"
         and pe = "parseExpression 3",
         THEN conjunct2, THEN conjunct2, THEN conjunct1]
    by (simp add: tok_def tokv_def)
  have h_varname:
    "fst (pop (lex ''let )'')) = Some (tok T_Let)"
    "fst (pop (snd (pop (lex ''let )'')))) = Some (tok T_RParen)"
    by code_simp+
  have w_varname: ?varname
    using h_varname
      mismatch_handling
        [where tks = "lex ''let )''"
         and a = "tok T_Let"
         and t = "tok T_RParen"
         and n = "3"
         and pe = "parseExpression 3",
         THEN conjunct2, THEN conjunct2, THEN conjunct1]
    by (simp add: tok_def tokv_def)
  have h_assign:
    "pop (lex ''let x: i32 )'') = (Some (tok T_Let), \<lparr>tokens = lexTokens ''let x: i32 )'', cursor = 0\<rparr>)"
    "pop \<lparr>tokens = lexTokens ''let x: i32 )'', cursor = 0\<rparr> = (Some (tokv T_Identifier ''x''), \<lparr>tokens = lexTokens ''let x: i32 )'', cursor = 1\<rparr>)"
    "parseType \<lparr>tokens = lexTokens ''let x: i32 )'', cursor = 1\<rparr> = Some (Inr (DT_I32, \<lparr>tokens = lexTokens ''let x: i32 )'', cursor = 3\<rparr>))"
    "peek \<lparr>tokens = lexTokens ''let x: i32 )'', cursor = 3\<rparr> 1 = (Some (tok T_RParen), \<lparr>tokens = lexTokens ''let x: i32 )'', cursor = 3\<rparr>)"
    "fst (pop \<lparr>tokens = lexTokens ''let x: i32 )'', cursor = 3\<rparr>) = Some (tok T_RParen)"
    by code_simp+
  have w_assign: ?assign
    using h_assign
      mismatch_handling
        [where tks = "lex ''let x: i32 )''"
         and a = "tok T_Let"
         and tksA = "\<lparr>tokens = lexTokens ''let x: i32 )'', cursor = 0\<rparr>"
         and b = "tokv T_Identifier ''x''"
         and tksB = "\<lparr>tokens = lexTokens ''let x: i32 )'', cursor = 1\<rparr>"
         and ty = "DT_I32"
         and tksC = "\<lparr>tokens = lexTokens ''let x: i32 )'', cursor = 3\<rparr>"
         and c = "tok T_RParen"
         and tksD = "\<lparr>tokens = lexTokens ''let x: i32 )'', cursor = 3\<rparr>"
         and n = "3"
         and t = "tok T_RParen"
         and d = "tok T_RBracket",
         THEN conjunct2, THEN conjunct2, THEN conjunct2, THEN conjunct1]
    by (simp add: tok_def tokv_def)
  have h_brackets:
    "pop (lex ''let x: i32[ )'') = (Some (tok T_Let), \<lparr>tokens = lexTokens ''let x: i32[ )'', cursor = 0\<rparr>)"
    "pop \<lparr>tokens = lexTokens ''let x: i32[ )'', cursor = 0\<rparr> = (Some (tokv T_Identifier ''x''), \<lparr>tokens = lexTokens ''let x: i32[ )'', cursor = 1\<rparr>)"
    "parseType \<lparr>tokens = lexTokens ''let x: i32[ )'', cursor = 1\<rparr> = Some (Inr (DT_I32, \<lparr>tokens = lexTokens ''let x: i32[ )'', cursor = 3\<rparr>))"
    "peek \<lparr>tokens = lexTokens ''let x: i32[ )'', cursor = 3\<rparr> 1 = (Some (tok T_LBracket), \<lparr>tokens = lexTokens ''let x: i32[ )'', cursor = 3\<rparr>)"
    "fst (pop (snd (pop \<lparr>tokens = lexTokens ''let x: i32[ )'', cursor = 3\<rparr>))) = Some (tok T_RParen)"
    by code_simp+
  have w_brackets: ?brackets
    using h_brackets
      mismatch_handling
        [where tks = "lex ''let x: i32[ )''"
         and a = "tok T_Let"
         and tksA = "\<lparr>tokens = lexTokens ''let x: i32[ )'', cursor = 0\<rparr>"
         and b = "tokv T_Identifier ''x''"
         and tksB = "\<lparr>tokens = lexTokens ''let x: i32[ )'', cursor = 1\<rparr>"
         and ty = "DT_I32"
         and tksC = "\<lparr>tokens = lexTokens ''let x: i32[ )'', cursor = 3\<rparr>"
         and c = "tok T_LBracket"
         and tksD = "\<lparr>tokens = lexTokens ''let x: i32[ )'', cursor = 3\<rparr>"
         and n = "3"
         and t = "tok T_RParen"
         and d = "tok T_RBracket",
         THEN conjunct2, THEN conjunct2, THEN conjunct2, THEN conjunct1]
    by (simp add: tok_def tokv_def)
  have h_assignArr:
    "pop (lex ''let x: i32[] )'') = (Some (tok T_Let), \<lparr>tokens = lexTokens ''let x: i32[] )'', cursor = 0\<rparr>)"
    "pop \<lparr>tokens = lexTokens ''let x: i32[] )'', cursor = 0\<rparr> = (Some (tokv T_Identifier ''x''), \<lparr>tokens = lexTokens ''let x: i32[] )'', cursor = 1\<rparr>)"
    "parseType \<lparr>tokens = lexTokens ''let x: i32[] )'', cursor = 1\<rparr> = Some (Inr (DT_I32, \<lparr>tokens = lexTokens ''let x: i32[] )'', cursor = 3\<rparr>))"
    "peek \<lparr>tokens = lexTokens ''let x: i32[] )'', cursor = 3\<rparr> 1 = (Some (tok T_LBracket), \<lparr>tokens = lexTokens ''let x: i32[] )'', cursor = 3\<rparr>)"
    "fst (pop (snd (pop \<lparr>tokens = lexTokens ''let x: i32[] )'', cursor = 3\<rparr>))) = Some (tok T_RBracket)"
    "fst (pop (snd (pop (snd (pop \<lparr>tokens = lexTokens ''let x: i32[] )'', cursor = 3\<rparr>))))) = Some (tok T_RParen)"
    by code_simp+
  have w_assignArr: ?assignArr
    using h_assignArr
      mismatch_handling
        [where tks = "lex ''let x: i32[] )''"
         and a = "tok T_Let"
         and tksA = "\<lparr>tokens = lexTokens ''let x: i32[] )'', cursor = 0\<rparr>"
         and b = "tokv T_Identifier ''x''"
         and tksB = "\<lparr>tokens = lexTokens ''let x: i32[] )'', cursor = 1\<rparr>"
         and ty = "DT_I32"
         and tksC = "\<lparr>tokens = lexTokens ''let x: i32[] )'', cursor = 3\<rparr>"
         and c = "tok T_LBracket"
         and tksD = "\<lparr>tokens = lexTokens ''let x: i32[] )'', cursor = 3\<rparr>"
         and n = "3"
         and t = "tok T_RParen"
         and d = "tok T_RBracket",
         THEN conjunct2, THEN conjunct2, THEN conjunct2, THEN conjunct1]
    by (simp add: tok_def tokv_def)
  have h_rbrace:
    "fst (pop (lex ''{ x'')) = Some (tok T_LBrace)"
    "parseBlockLoop (parseBlock 3) 3 (fst (peek (snd (pop (lex ''{ x''))) 1)) [] []
         (snd (peek (snd (pop (lex ''{ x''))) 1))
       = Some (Inr (tok T_EOF, [ExpressionStmt (Variable ''x'')], [], \<lparr>tokens = lexTokens ''{ x'', cursor = 1\<rparr>))"
    by code_simp+
  have w_rbrace: ?rbrace
    using h_rbrace
      mismatch_handling
        [where tks = "lex ''{ x''"
         and a = "tok T_LBrace"
         and n = "3"
         and t = "tok T_EOF"
         and stmts = "[ExpressionStmt (Variable ''x'')]"
         and vars = "[]"
         and tksE = "\<lparr>tokens = lexTokens ''{ x'', cursor = 1\<rparr>",
         THEN conjunct2, THEN conjunct2, THEN conjunct2, THEN conjunct2,
         THEN conjunct1]
    by (simp add: tok_def tokv_def)
  have h_rparenFunction:
    "fst (pop (lex ''f(a: i32 b'')) = Some (tokv T_Identifier ''f'')"
    "fst (pop (snd (pop (lex ''f(a: i32 b'')))) = Some (tok T_LParen)"
    "peek (snd (pop (snd (pop (lex ''f(a: i32 b''))))) 1 = (Some (tokv T_Identifier ''a''), \<lparr>tokens = lexTokens ''f(a: i32 b'', cursor = 1\<rparr>)"
    "parseFunctionParamsLoop 3 (Some (tokv T_Identifier ''a'')) [] \<lparr>tokens = lexTokens ''f(a: i32 b'', cursor = 1\<rparr>
       = Some (Inr (tokv T_Identifier ''b'', [\<lparr>p_name = ''a'', p_type = DT_I32\<rparr>], \<lparr>tokens = lexTokens ''f(a: i32 b'', cursor = 5\<rparr>))"
    by code_simp+
  have w_rparenFunction: ?rparenFunction
    using h_rparenFunction
      mismatch_handling
        [where tks = "lex ''f(a: i32 b''"
         and a = "tokv T_Identifier ''f''"
         and b = "tok T_LParen"
         and p = "tokv T_Identifier ''a''"
         and tksC = "\<lparr>tokens = lexTokens ''f(a: i32 b'', cursor = 1\<rparr>"
         and entry = "Some (tokv T_Identifier ''a'')"
         and tksD = "\<lparr>tokens = lexTokens ''f(a: i32 b'', cursor = 1\<rparr>"
         and n = "3"
         and t = "tokv T_Identifier ''b''"
         and params = "[\<lparr>p_name = ''a'', p_type = DT_I32\<rparr>]"
         and tksE = "\<lparr>tokens = lexTokens ''f(a: i32 b'', cursor = 5\<rparr>"
         and pe = "parseExpression 3"
         and argus = "[]",
         THEN conjunct2, THEN conjunct2, THEN conjunct2, THEN conjunct2,
         THEN conjunct2, THEN conjunct1]
    by (simp add: tok_def tokv_def)
  have h_rparenCall:
    "fst (pop (lex ''f(a'')) = Some (tokv T_Identifier ''f'')"
    "fst (pop (snd (pop (lex ''f(a'')))) = Some (tok T_LParen)"
    "peek (snd (pop (snd (pop (lex ''f(a''))))) 1 = (Some (tokv T_Identifier ''a''), \<lparr>tokens = lexTokens ''f(a'', cursor = 1\<rparr>)"
    "parseFunctionCallLoop (parseExpression 3) 3 (Some (tokv T_Identifier ''a'')) [] \<lparr>tokens = lexTokens ''f(a'', cursor = 1\<rparr>
       = Some (Inr (tok T_EOF, [Variable ''a''], \<lparr>tokens = lexTokens ''f(a'', cursor = 3\<rparr>))"
    by code_simp+
  have w_rparenCall: ?rparenCall
    using h_rparenCall
      mismatch_handling
        [where tks = "lex ''f(a''"
         and a = "tokv T_Identifier ''f''"
         and b = "tok T_LParen"
         and p = "tokv T_Identifier ''a''"
         and tksC = "\<lparr>tokens = lexTokens ''f(a'', cursor = 1\<rparr>"
         and entry = "Some (tokv T_Identifier ''a'')"
         and tksD = "\<lparr>tokens = lexTokens ''f(a'', cursor = 1\<rparr>"
         and n = "3"
         and t = "tok T_EOF"
         and params = "[]"
         and tksE = "\<lparr>tokens = lexTokens ''f(a'', cursor = 3\<rparr>"
         and pe = "parseExpression 3"
         and argus = "[Variable ''a'']",
         THEN conjunct2, THEN conjunct2, THEN conjunct2, THEN conjunct2,
         THEN conjunct2, THEN conjunct1]
    by (simp add: tok_def tokv_def)
  have h_comma:
    "parseExpression 3 \<lparr>tokens = lexTokens ''[1 2]'', cursor = 0\<rparr> = Some (Inr (I32Lit ''1'', \<lparr>tokens = lexTokens ''[1 2]'', cursor = 1\<rparr>))"
    "fst (peek \<lparr>tokens = lexTokens ''[1 2]'', cursor = 1\<rparr> 1) = Some (tokv T_Number ''2'')"
    "parseArray (parseExpression 3) 4 (lex ''[1 2]'') = throw (expectedGot (quoted '','') T_Number)"
    by code_simp+
  have w_comma: ?comma
    using h_comma
      mismatch_handling
        [where a = "tokv T_Number ''1''"
         and pe = "parseExpression 3"
         and tks = "\<lparr>tokens = lexTokens ''[1 2]'', cursor = 0\<rparr>"
         and x = "I32Lit ''1''"
         and tksA = "\<lparr>tokens = lexTokens ''[1 2]'', cursor = 1\<rparr>"
         and t = "tokv T_Number ''2''"
         and n = "3"
         and items = "[]",
         THEN conjunct2, THEN conjunct2, THEN conjunct2, THEN conjunct2,
         THEN conjunct2, THEN conjunct2, THEN conjunct1]
    by (simp add: tok_def tokv_def)
  have w_incomplete: ?incomplete
    using
      mismatch_handling
        [where t = "tok T_EOF"
         and pb = "parseBlock 3"
         and n = "3"
         and tks = "lex []",
         THEN conjunct2, THEN conjunct2, THEN conjunct2, THEN conjunct2,
         THEN conjunct2, THEN conjunct2, THEN conjunct2, THEN conjunct1]
    by (simp add: tok_def tokv_def)
  have h_abort:
    "parseFunction 3 (lex '')'') = Some (Inl (Error (expectedGot ''function name'' T_RParen)))"
    by code_simp+
  have w_abort: ?abort
    using h_abort
      mismatch_handling
        [where a = "tok T_Func"
         and n = "3"
         and tks = "lex '')''"
         and e = "Error (expectedGot ''function name'' T_RParen)"
         and fs = "[\<lparr>f_name = ''g'', f_params = [], f_block = Block [] [], f_returns = DT_Void\<rparr>]",
         THEN conjunct2, THEN conjunct2, THEN conjunct2, THEN conjunct2,
         THEN conjunct2, THEN conjunct2, THEN conjunct2, THEN conjunct2,
         THEN conjunct1]
    by (simp add: tok_def tokv_def)
  have h_nofunc:
    "lexTokens '') ) : 7'' = [tok T_RParen, tok T_RParen, tok T_Colon, tokv T_Number ''7'', tok T_EOF]"
    by code_simp+
  have w_nofunc: ?nofunc
    using h_nofunc
      mismatch_handling
        [where ts = "lexTokens '') ) : 7''"
         and m = "0",
         THEN conjunct2, THEN conjunct2, THEN conjunct2, THEN conjunct2,
         THEN conjunct2, THEN conjunct2, THEN conjunct2, THEN conjunct2,
         THEN conjunct2, THEN conjunct1]
    by (simp add: tok_def tokv_def lex_def eval_nat_numeral)
  have h_skip:
    "lexTokens '') ] x'' = [tok T_RParen, tok T_RBracket, tokv T_Identifier ''x'', tok T_EOF]"
    by code_simp+
  have w_skip: ?skip
    using h_skip
      mismatch_handling
        [where i = "0"
         and k = "2"
         and ts = "lexTokens '') ] x''"
         and pb = "parseBlock 3"
         and n = "3",
         THEN conjunct2, THEN conjunct2, THEN conjunct2, THEN conjunct2,
         THEN conjunct2, THEN conjunct2, THEN conjunct2, THEN conjunct2,
         THEN conjunct2, THEN conjunct2, THEN conjunct1]
    by (simp add: tok_def tokv_def startsStatement_def less_Suc_eq numeral_2_eq_2)
  have h_failure:
    "parse 30 (lex ''func f'') = Some (Inl (Error (expectedGot (quoted ''('') T_EOF)))"
    by code_simp+
  have w_failure: ?failure
    using h_failure
      mismatch_handling
        [where m = "30"
         and tokenList = "lex ''func f''"
         and e = "Error (expectedGot (quoted ''('') T_EOF)",
         THEN conjunct2, THEN conjunct2, THEN conjunct2, THEN conjunct2,
         THEN conjunct2, THEN conjunct2, THEN conjunct2, THEN conjunct2,
         THEN conjunct2, THEN conjunct2, THEN conjunct2]
    by (simp add: tok_def tokv_def)
  show ?thesis
    by (rule conjI [OF w_first conjI [OF w_eof conjI [OF w_operand conjI [OF w_datatype
        conjI [OF w_lparen conjI [OF w_varname conjI [OF w_assign conjI [OF w_brackets conjI
        [OF w_assignArr conjI [OF w_rbrace conjI [OF w_rparenFunction conjI [OF w_rparenCall
        conjI [OF w_comma conjI [OF w_incomplete conjI [OF w_abort conjI [OF w_nofunc conjI
        [OF w_skip w_failure]]]]]]]]]]]]]]]]])
qed

text \<open>
  Counterexample to claim C3 as stated. In the first text the body of \<open>f\<close> starts with
  \<open>)\<close>, which starts no statement: the parser raises no error, skips \<open>)\<close> and \<open>x\<close>
  and returns a tree whose only statement is \<open>y\<close>. In the second text the body is the
  number \<open>1\<close>: the parser skips to the end of the stream and throws an error that names
  no token kind. In the third text, which contains no function, every token is skipped
  and the empty program is returned.
\<close>

theorem tokens_skipped_without_error:
  "parse 30 (lex ''func f(): void { ) x y }'')
     = Some (Inr \<lparr>funcs = [\<lparr>f_name = ''f'', f_params = [],
          f_block = Block [ExpressionStmt (Variable ''y'')] [], f_returns = DT_Void\<rparr>]\<rparr>)
   \<and> parse 30 (lex ''func f(): void { 1 }'') = Some (Inl (Error ''Incomplete statement''))
   \<and> parse 30 (lex '') ) : 7'') = Some (Inr \<lparr>funcs = []\<rparr>)"
  by code_simp

text \<open>
  Claim C5. A source text with a match statement should be scanned into a match token
  and parsed into a match-statement node. The scanner has no \<open>match\<close> keyword: the word
  becomes an identifier token. The parser then reads \<open>match\<close> and the scrutinee \<open>x\<close> as
  two expression statements, skips the remaining tokens looking for a statement and
  throws \<open>Incomplete statement\<close>; no match-statement node is produced.
\<close>

theorem match_keyword_is_identifier:
  "lexTokens ''match x { 1 { } }''
     = [tokv T_Identifier ''match'', tokv T_Identifier ''x'', tok T_LBrace, tokv T_Number ''1'',
        tok T_LBrace, tok T_RBrace, tok T_RBrace, tok T_EOF]
   \<and> parse 30 (lex ''func main(): void { match x { 1 { } } }'')
     = Some (Inl (Error ''Incomplete statement''))"
  by code_simp

text \<open>
  Claim C7. A for-loop over the range \<open>start..end\<close> should become a loop over the
  half-open interval from \<open>start\<close> to \<open>end\<close>, and \<open>for i in 0..10 { }\<close> should visit
  0 to 9. The generator does emit \<open>for (let i = 0; i < 10; i++) {\<close> for the tree of that
  loop, but the parser never builds the tree from the text: \<open>parseForStatement\<close> pops the
  bound name and leaves the \<open>in\<close> token, on which \<open>parseExpression\<close> throws. Without
  the binding, \<open>for 0..10 { }\<close> is parsed and generated with the loop variable \<open>it\<close>.
\<close>

theorem bound_range_loop_rejected:
  "parse 30 (lex ''func main(): void { for i in 0..10 { } }'')
     = Some (Inl (Error (''Expected expression, got '' @ quoted ''in'')))
   \<and> translateForStatement
       (ForStatement (Some ''i'') (Some (BinaryOperation Op_Range (I32Lit ''0'') (I32Lit ''10'')))
          (Block [] []))
       \<lparr>funcs = []\<rparr> 1
     = [''    for (let i = 0; i < 10; i++) {'', ''    }'']
   \<and> map_option (map_sum id translate) (parse 30 (lex ''func main(): void { for 0..10 { } }''))
     = Some (Inr (''function main() {'' @ [CHR 0x0A]
                  @ ''    for (let it = 0; it < 10; it++) {'' @ [CHR 0x0A]
                  @ ''    }'' @ [CHR 0x0A] @ ''}'' @ [CHR 0x0A] @ [CHR 0x0A] @ ''main();''))"
  by code_simp

end
